theory Spec2Isabelle
  imports Main
begin

section \<open>The RBACRule controller: data model\<close>

text \<open>
  The development follows \<^verbatim>\<open>internal/parser/parser.go\<close> (the binding expansion) and
  \<^verbatim>\<open>internal/controller/rbacrule_controller.go\<close> (the reconciler), with the API types of
  \<^verbatim>\<open>api/v1alpha1\<close>. Go strings are \<^typ>\<open>string\<close>, slices are lists (a nil slice and an
  empty one are both \<open>[]\<close>: the code only ranges over them, takes their length or
  appends), a one-entry \<^verbatim>\<open>map[string]string\<close> of labels is an association list.
\<close>

subsection \<open>Errors\<close>

text \<open>
  Every \<^verbatim>\<open>error\<close> value the code can see. \<open>NotFound\<close> and \<open>AlreadyExists\<close> are the two
  API errors the code tests for (\<^verbatim>\<open>apierrors.IsNotFound\<close>, \<^verbatim>\<open>apierrors.IsAlreadyExists\<close>);
  \<open>Transient n\<close> is any other failure of an API call; \<open>InvalidSelector\<close> is the error of
  \<^verbatim>\<open>metav1.LabelSelectorAsSelector\<close>; \<open>Invalid\<close> is the API server refusing an update
  (a RoleBinding's role reference is immutable); \<open>Wrapped msg e\<close> is
  \<^verbatim>\<open>fmt.Errorf("msg %w", e)\<close>. A Go run-time panic is not an error value: see \<open>Outcome\<close>.
\<close>

datatype Err =
    NotFound
  | AlreadyExists
  | Transient nat
  | InvalidSelector
  | Invalid
  | Wrapped string Err

datatype 'a Outcome = Returns 'a | Panics

subsection \<open>Kubernetes metadata and label selectors\<close>

type_synonym labelmap = "(string \<times> string) list"

text \<open>
  \<^verbatim>\<open>time.Time\<close>: \<open>ZeroTime\<close> is the zero struct \<^verbatim>\<open>time.Time{}\<close>, the only value the test
  \<^verbatim>\<open>t != (time.Time{})\<close> rejects; \<open>At i\<close> is any other value, at instant \<open>i\<close>. Instants are
  nanoseconds counted from the instant of \<^verbatim>\<open>time.Time{}\<close>.
\<close>

datatype Time = ZeroTime | At int

fun instant :: "Time \<Rightarrow> int" where
  "instant ZeroTime = 0"
| "instant (At i) = i"

definition time_After :: "Time \<Rightarrow> Time \<Rightarrow> bool" where
  "time_After t u = (instant u < instant t)"

definition time_Before :: "Time \<Rightarrow> Time \<Rightarrow> bool" where
  "time_Before t u = (instant t < instant u)"

definition maxDuration :: int where
  "maxDuration = 2 ^ 63 - 1"

definition minDuration :: int where
  "minDuration = - (2 ^ 63)"

text \<open>\<^verbatim>\<open>t.Sub(u)\<close>: a \<^verbatim>\<open>time.Duration\<close> is an int64 of nanoseconds, and \<^verbatim>\<open>Sub\<close> saturates.\<close>

definition time_Sub :: "Time \<Rightarrow> Time \<Rightarrow> int" where
  "time_Sub t u =
     (let d = instant t - instant u in
      if minDuration \<le> d \<and> d \<le> maxDuration then d
      else if d < 0 then minDuration else maxDuration)"

record OwnerReference =
  or_Kind :: string
  or_Name :: string
  or_Controller :: bool

record ObjectMeta =
  om_Name :: string
  om_Namespace :: string
  om_Labels :: labelmap
  om_OwnerReferences :: "OwnerReference list"
  om_Finalizers :: "string list"
  om_DeletionTimestamp :: "Time option"

definition emptyMeta :: ObjectMeta where
  "emptyMeta = \<lparr> om_Name = [], om_Namespace = [], om_Labels = [],
     om_OwnerReferences = [], om_Finalizers = [], om_DeletionTimestamp = None \<rparr>"

record LabelSelectorRequirement =
  lsr_Key :: string
  lsr_Operator :: string
  lsr_Values :: "string list"

text \<open>\<^verbatim>\<open>metav1.LabelSelector\<close>; \<open>ls_MatchLabels = None\<close> is the nil map.\<close>

record LabelSelector =
  ls_MatchLabels :: "labelmap option"
  ls_MatchExpressions :: "LabelSelectorRequirement list"

text \<open>
  \<^verbatim>\<open>labels.Selector\<close>, as apimachinery builds it: a conjunction of requirements; the
  empty conjunction is \<^verbatim>\<open>labels.Everything()\<close>.
\<close>

datatype Operator = OpIn | OpNotIn | OpExists | OpDoesNotExist | OpEquals

datatype Requirement = Requirement string Operator "string list"

type_synonym Selector = "Requirement list"

fun req_Matches :: "Requirement \<Rightarrow> labelmap \<Rightarrow> bool" where
  "req_Matches (Requirement k OpIn vs) ls =
     (case map_of ls k of None \<Rightarrow> False | Some v \<Rightarrow> v \<in> set vs)"
| "req_Matches (Requirement k OpEquals vs) ls =
     (case map_of ls k of None \<Rightarrow> False | Some v \<Rightarrow> v \<in> set vs)"
| "req_Matches (Requirement k OpNotIn vs) ls =
     (case map_of ls k of None \<Rightarrow> True | Some v \<Rightarrow> v \<notin> set vs)"
| "req_Matches (Requirement k OpExists vs) ls = (map_of ls k \<noteq> None)"
| "req_Matches (Requirement k OpDoesNotExist vs) ls = (map_of ls k = None)"

definition sel_Matches :: "Selector \<Rightarrow> labelmap \<Rightarrow> bool" where
  "sel_Matches sel ls = list_all (\<lambda>r. req_Matches r ls) sel"

text \<open>
  \<^verbatim>\<open>labels.SelectorFromSet\<close>: one equality requirement per entry, with no validation
  of keys or values.
\<close>

definition SelectorFromSet :: "labelmap \<Rightarrow> Selector" where
  "SelectorFromSet m = map (\<lambda>(k, v). Requirement k OpEquals [v]) m"

subsection \<open>What the source tree does not contain\<close>

text \<open>
  \<^verbatim>\<open>constants.RBACRuleLabel\<close> and \<^verbatim>\<open>utils.GenerateName\<close> are used by the code but their
  packages (\<^verbatim>\<open>internal/constants\<close>, \<^verbatim>\<open>internal/utils\<close>) are not among the source files
  this development follows, so both are parameters of the model, as are the
  lexical checks apimachinery applies to label keys and values
  (\<^verbatim>\<open>validateLabelKey\<close>, \<^verbatim>\<open>validateLabelValue\<close>). The environment of a run also fixes what
  the outside world answers: \<open>clock k\<close> is the instant of the \<open>k\<close>-th call of
  \<^verbatim>\<open>time.Now\<close>, and \<open>apiFault k\<close> is the error, if any, with which the \<open>k\<close>-th call of
  the API client fails for a reason outside the stored objects (network, conflict,
  admission).
\<close>

record Env =
  RBACRuleLabel :: string
  GenerateName :: "string \<Rightarrow> string \<Rightarrow> string \<Rightarrow> string \<Rightarrow> string"
  validLabelKey :: "string \<Rightarrow> bool"
  validLabelValue :: "string \<Rightarrow> bool"
  clock :: "nat \<Rightarrow> int"
  apiFault :: "nat \<Rightarrow> Err option"

text \<open>\<^verbatim>\<open>labels.NewRequirement\<close>: the operator fixes how many values are allowed.\<close>

definition NewRequirement :: "Env \<Rightarrow> string \<Rightarrow> Operator \<Rightarrow> string list \<Rightarrow> Err + Requirement" where
  "NewRequirement env k op vs =
     (if \<not> validLabelKey env k then Inl InvalidSelector
      else if (op = OpIn \<or> op = OpNotIn) \<and> vs = [] then Inl InvalidSelector
      else if op = OpEquals \<and> length vs \<noteq> 1 then Inl InvalidSelector
      else if (op = OpExists \<or> op = OpDoesNotExist) \<and> vs \<noteq> [] then Inl InvalidSelector
      else if \<not> list_all (validLabelValue env) vs then Inl InvalidSelector
      else Inr (Requirement k op vs))"

definition operatorOf :: "string \<Rightarrow> Operator option" where
  "operatorOf s =
     (if s = ''In'' then Some OpIn
      else if s = ''NotIn'' then Some OpNotIn
      else if s = ''Exists'' then Some OpExists
      else if s = ''DoesNotExist'' then Some OpDoesNotExist
      else None)"

fun labelRequirements :: "Env \<Rightarrow> labelmap \<Rightarrow> Err + Requirement list" where
  "labelRequirements env [] = Inr []"
| "labelRequirements env ((k, v) # m) =
     (case NewRequirement env k OpEquals [v] of
        Inl e \<Rightarrow> Inl e
      | Inr r \<Rightarrow> (case labelRequirements env m of Inl e \<Rightarrow> Inl e | Inr rs \<Rightarrow> Inr (r # rs)))"

fun exprRequirements :: "Env \<Rightarrow> LabelSelectorRequirement list \<Rightarrow> Err + Requirement list" where
  "exprRequirements env [] = Inr []"
| "exprRequirements env (x # xs) =
     (case operatorOf (lsr_Operator x) of
        None \<Rightarrow> Inl InvalidSelector
      | Some op \<Rightarrow>
          (case NewRequirement env (lsr_Key x) op (lsr_Values x) of
             Inl e \<Rightarrow> Inl e
           | Inr r \<Rightarrow> (case exprRequirements env xs of Inl e \<Rightarrow> Inl e | Inr rs \<Rightarrow> Inr (r # rs))))"

text \<open>
  \<^verbatim>\<open>metav1.LabelSelectorAsSelector\<close> on a non-nil selector: with no match labels and
  no match expressions the result is \<^verbatim>\<open>labels.Everything()\<close>, otherwise the
  conjunction of all requirements, or the first error.
\<close>

definition matchLabelsOf :: "LabelSelector \<Rightarrow> labelmap" where
  "matchLabelsOf ls = (case ls_MatchLabels ls of None \<Rightarrow> [] | Some m \<Rightarrow> m)"

definition LabelSelectorAsSelector :: "Env \<Rightarrow> LabelSelector \<Rightarrow> Err + Selector" where
  "LabelSelectorAsSelector env ls =
     (if length (matchLabelsOf ls) + length (ls_MatchExpressions ls) = 0 then Inr []
      else
        (case labelRequirements env (matchLabelsOf ls) of
           Inl e \<Rightarrow> Inl e
         | Inr rs \<Rightarrow>
             (case exprRequirements env (ls_MatchExpressions ls) of
                Inl e \<Rightarrow> Inl e
              | Inr rs' \<Rightarrow> Inr (rs @ rs'))))"

subsection \<open>The API types of \<^verbatim>\<open>api/v1alpha1\<close>\<close>

text \<open>
  \<^verbatim>\<open>SubjectType\<close> is a Go string type; the three declared values are constants here and
  a \<open>s_Kind\<close> may hold any string, as in the source.
\<close>

definition User :: string where "User = ''User''"
definition Group :: string where "Group = ''Group''"
definition ServiceAccount :: string where "ServiceAccount = ''ServiceAccount''"

record Subject =
  s_Kind :: string
  s_Name :: string
  s_Namespaces :: "string list"
  s_NameSpaceSelector :: LabelSelector
  s_NamespaceMatchExpression :: string

record RoleBindingSpec =
  rb_Role :: string
  rb_ClusterRole :: string
  rb_Namespaces :: "string list"
  rb_NameSpaceSelector :: LabelSelector
  rb_NamespaceMatchExpression :: string

record ClusterRoleBindingSpec =
  crb_ClusterRole :: string

record Binding =
  b_Name :: string
  b_Subjects :: "Subject list"
  b_RoleBindings :: "RoleBindingSpec list"
  b_ClusterRoleBindings :: "ClusterRoleBindingSpec list"

record RBACRuleSpec =
  spec_Bindings :: "Binding list"
  spec_StartTime :: Time
  spec_EndTime :: Time
  spec_CreateSA :: bool

record RBACRuleStatus =
  st_RoleBindings :: "string list"
  st_ClusterRoleBindings :: "string list"

record RBACRule =
  r_Meta :: ObjectMeta
  r_Spec :: RBACRuleSpec
  r_Status :: RBACRuleStatus

subsection \<open>The generated objects (\<^verbatim>\<open>rbacv1\<close>, \<^verbatim>\<open>corev1\<close>)\<close>

record RbacSubject =
  sub_APIGroup :: string
  sub_Kind :: string
  sub_Name :: string
  sub_Namespace :: string

record RoleRef =
  rr_APIGroup :: string
  rr_Kind :: string
  rr_Name :: string

record K8sRoleBinding =
  krb_Meta :: ObjectMeta
  krb_Subjects :: "RbacSubject list"
  krb_RoleRef :: RoleRef

record K8sClusterRoleBinding =
  kcrb_Meta :: ObjectMeta
  kcrb_Subjects :: "RbacSubject list"
  kcrb_RoleRef :: RoleRef

record K8sServiceAccount =
  ksa_Meta :: ObjectMeta

record K8sNamespace =
  kns_Meta :: ObjectMeta

section \<open>The cluster object store\<close>

text \<open>
  The client is modelled by the objects it stores, one list per kind, together
  with the number of API calls and clock readings made so far and the log. Every
  client call consumes one index of \<open>apiFault\<close>.
\<close>

datatype LogEntry = LogInfo string | LogError string

record World =
  w_rules :: "RBACRule list"
  w_namespaces :: "K8sNamespace list"
  w_serviceAccounts :: "K8sServiceAccount list"
  w_roleBindings :: "K8sRoleBinding list"
  w_clusterRoleBindings :: "K8sClusterRoleBinding list"
  w_calls :: nat
  w_ticks :: nat
  w_log :: "LogEntry list"

definition api_call :: "Env \<Rightarrow> World \<Rightarrow> Err option \<times> World" where
  "api_call env w = (apiFault env (w_calls w), w\<lparr> w_calls := Suc (w_calls w) \<rparr>)"

definition time_Now :: "Env \<Rightarrow> World \<Rightarrow> Time \<times> World" where
  "time_Now env w = (At (clock env (w_ticks w)), w\<lparr> w_ticks := Suc (w_ticks w) \<rparr>)"

definition log_Info :: "string \<Rightarrow> World \<Rightarrow> World" where
  "log_Info m w = w\<lparr> w_log := w_log w @ [LogInfo m] \<rparr>"

definition log_Error :: "string \<Rightarrow> World \<Rightarrow> World" where
  "log_Error m w = w\<lparr> w_log := w_log w @ [LogError m] \<rparr>"

text \<open>Listing namespaces (as \<^verbatim>\<open>PartialObjectMetadataList\<close>) under a selector.\<close>

definition List_namespaces :: "Env \<Rightarrow> World \<Rightarrow> Selector \<Rightarrow> (Err + ObjectMeta list) \<times> World" where
  "List_namespaces env w sel =
     (case api_call env w of
        (Some e, w') \<Rightarrow> (Inl e, w')
      | (None, w') \<Rightarrow>
          (Inr (filter (\<lambda>m. sel_Matches sel (om_Labels m)) (map kns_Meta (w_namespaces w'))), w'))"

section \<open>The binding expansion parser\<close>

definition RBACApiGroup :: string where "RBACApiGroup = ''rbac.authorization.k8s.io''"
definition CRB :: string where "CRB = ''ClusterRole''"
definition RB :: string where "RB = ''Role''"

record Parser =
  p_Subjects :: "RbacSubject list"
  p_RoleBindings :: "K8sRoleBinding list"
  p_ClusterRoleBindings :: "K8sClusterRoleBinding list"

definition newParser :: Parser where
  "newParser = \<lparr> p_Subjects = [], p_RoleBindings = [], p_ClusterRoleBindings = [] \<rparr>"

definition retrieveNamespaces :: "Env \<Rightarrow> World \<Rightarrow> LabelSelector \<Rightarrow> (Err + string list) \<times> World" where
  "retrieveNamespaces env w ls =
     (if ls_MatchExpressions ls \<noteq> [] \<or> ls_MatchLabels ls \<noteq> None then
        (case LabelSelectorAsSelector env ls of
           Inl e \<Rightarrow> (Inl (Wrapped ''failed to extract a selector from the label selector'' e), w)
         | Inr selector \<Rightarrow>
             (case List_namespaces env w selector of
                (Inl e, w') \<Rightarrow> (Inl (Wrapped ''failed to list namespaces metadata'' e), w')
              | (Inr items, w') \<Rightarrow> (Inr (map om_Name items), w')))
      else (Inr [], w))"

definition userSubject :: "string \<Rightarrow> RbacSubject" where
  "userSubject n = \<lparr> sub_APIGroup = RBACApiGroup, sub_Kind = User, sub_Name = n, sub_Namespace = [] \<rparr>"

definition groupSubject :: "string \<Rightarrow> RbacSubject" where
  "groupSubject n = \<lparr> sub_APIGroup = RBACApiGroup, sub_Kind = Group, sub_Name = n, sub_Namespace = [] \<rparr>"

definition saSubject :: "string \<Rightarrow> string \<Rightarrow> RbacSubject" where
  "saSubject n ns = \<lparr> sub_APIGroup = [], sub_Kind = ServiceAccount, sub_Name = n, sub_Namespace = ns \<rparr>"

text \<open>
  \<^verbatim>\<open>parseSubjects\<close>: the loop over the declared subjects. The result is the error (if
  any), the parser as the loop left it, and the world. A kind outside the three
  cases of the \<^verbatim>\<open>switch\<close> appends nothing.
\<close>

fun parseSubjects :: "Env \<Rightarrow> World \<Rightarrow> Parser \<Rightarrow> Subject list \<Rightarrow> Err option \<times> Parser \<times> World" where
  "parseSubjects env w p [] = (None, p, w)"
| "parseSubjects env w p (s # ss) =
     (if s_Kind s = User then
        parseSubjects env w (p\<lparr> p_Subjects := p_Subjects p @ [userSubject (s_Name s)] \<rparr>) ss
      else if s_Kind s = Group then
        parseSubjects env w (p\<lparr> p_Subjects := p_Subjects p @ [groupSubject (s_Name s)] \<rparr>) ss
      else if s_Kind s = ServiceAccount then
        (case retrieveNamespaces env w (s_NameSpaceSelector s) of
           (Inl e, w') \<Rightarrow> (Some e, p, w')
         | (Inr ns, w') \<Rightarrow>
             parseSubjects env w'
               (p\<lparr> p_Subjects := p_Subjects p @ map (saSubject (s_Name s)) (ns @ s_Namespaces s) \<rparr>) ss)
      else parseSubjects env w p ss)"

definition mkCRB :: "Env \<Rightarrow> string \<Rightarrow> string \<Rightarrow> labelmap \<Rightarrow> OwnerReference list \<Rightarrow> RbacSubject list
    \<Rightarrow> ClusterRoleBindingSpec \<Rightarrow> K8sClusterRoleBinding" where
  "mkCRB env RBACRuleName BindingName RBACLabels ownerRef subjects crb =
     \<lparr> kcrb_Meta = emptyMeta\<lparr>
          om_Name := GenerateName env RBACRuleName BindingName CRB (crb_ClusterRole crb),
          om_Labels := RBACLabels,
          om_OwnerReferences := ownerRef \<rparr>,
       kcrb_Subjects = subjects,
       kcrb_RoleRef = \<lparr> rr_APIGroup = RBACApiGroup, rr_Kind = CRB, rr_Name = crb_ClusterRole crb \<rparr> \<rparr>"

definition parseCRBs :: "Env \<Rightarrow> Parser \<Rightarrow> string \<Rightarrow> string \<Rightarrow> ClusterRoleBindingSpec list \<Rightarrow> labelmap
    \<Rightarrow> OwnerReference list \<Rightarrow> Parser" where
  "parseCRBs env p RBACRuleName BindingName CRBs RBACLabels ownerRef =
     p\<lparr> p_ClusterRoleBindings := p_ClusterRoleBindings p @
          map (mkCRB env RBACRuleName BindingName RBACLabels ownerRef (p_Subjects p)) CRBs \<rparr>"

text \<open>
  One generated RoleBinding: \<open>kind\<close> is the kind of the role reference and \<open>role\<close> its
  name; the name of the object is generated with the constant \<^verbatim>\<open>RB\<close> in both branches
  of \<^verbatim>\<open>parseRBs\<close>.
\<close>

definition mkRB :: "Env \<Rightarrow> string \<Rightarrow> string \<Rightarrow> labelmap \<Rightarrow> OwnerReference list \<Rightarrow> RbacSubject list
    \<Rightarrow> string \<Rightarrow> string \<Rightarrow> string \<Rightarrow> K8sRoleBinding" where
  "mkRB env RBACRuleName BindingName RBAClabels ownerRef subjects kind role n =
     \<lparr> krb_Meta = emptyMeta\<lparr>
          om_Name := GenerateName env RBACRuleName BindingName RB role,
          om_Namespace := n,
          om_Labels := RBAClabels,
          om_OwnerReferences := ownerRef \<rparr>,
       krb_Subjects = subjects,
       krb_RoleRef = \<lparr> rr_APIGroup = RBACApiGroup, rr_Kind = kind, rr_Name = role \<rparr> \<rparr>"

text \<open>The RoleBindings one \<^verbatim>\<open>RoleBinding\<close> declaration adds, given its namespace list.\<close>

definition expandRB :: "Env \<Rightarrow> string \<Rightarrow> string \<Rightarrow> labelmap \<Rightarrow> OwnerReference list \<Rightarrow> RbacSubject list
    \<Rightarrow> RoleBindingSpec \<Rightarrow> string list \<Rightarrow> K8sRoleBinding list" where
  "expandRB env RBACRuleName BindingName RBAClabels ownerRef subjects rb ns =
     (if rb_ClusterRole rb \<noteq> [] then
        map (mkRB env RBACRuleName BindingName RBAClabels ownerRef subjects CRB (rb_ClusterRole rb)) ns
      else []) @
     (if rb_Role rb \<noteq> [] then
        map (mkRB env RBACRuleName BindingName RBAClabels ownerRef subjects RB (rb_Role rb)) ns
      else [])"

fun parseRBs :: "Env \<Rightarrow> World \<Rightarrow> Parser \<Rightarrow> string \<Rightarrow> string \<Rightarrow> RoleBindingSpec list \<Rightarrow> labelmap
    \<Rightarrow> OwnerReference list \<Rightarrow> Err option \<times> Parser \<times> World" where
  "parseRBs env w p RBACRuleName BindingName [] RBAClabels ownerRef = (None, p, w)"
| "parseRBs env w p RBACRuleName BindingName (rb # RBs) RBAClabels ownerRef =
     (case retrieveNamespaces env w (rb_NameSpaceSelector rb) of
        (Inl e, w') \<Rightarrow> (Some e, p, w')
      | (Inr ns, w') \<Rightarrow>
          parseRBs env w'
            (p\<lparr> p_RoleBindings := p_RoleBindings p @
                 expandRB env RBACRuleName BindingName RBAClabels ownerRef (p_Subjects p) rb
                   (ns @ rb_Namespaces rb) \<rparr>)
            RBACRuleName BindingName RBs RBAClabels ownerRef)"

text \<open>
  \<^verbatim>\<open>Parse\<close>: subjects, then ClusterRoleBindings, then RoleBindings (each guarded in
  the source by a length test that the empty loop makes redundant). On an error the
  parser keeps what was appended before it, and the caller still holds it.
\<close>

definition Parse :: "Env \<Rightarrow> World \<Rightarrow> Parser \<Rightarrow> Binding \<Rightarrow> labelmap \<Rightarrow> OwnerReference list \<Rightarrow> string
    \<Rightarrow> Err option \<times> Parser \<times> World" where
  "Parse env w p binding RBACLabels ownerRef RBACRuleName =
     (case parseSubjects env w p (b_Subjects binding) of
        (Some e, p1, w1) \<Rightarrow> (Some e, p1, w1)
      | (None, p1, w1) \<Rightarrow>
          parseRBs env w1
            (parseCRBs env p1 RBACRuleName (b_Name binding) (b_ClusterRoleBindings binding)
               RBACLabels ownerRef)
            RBACRuleName (b_Name binding) (b_RoleBindings binding) RBACLabels ownerRef)"

section \<open>The API client\<close>

text \<open>
  What the code requires of the client: get, list, create, update and delete by
  key. An object is identified within its kind by name and namespace. A call
  first consumes its index of \<open>apiFault\<close>; if no fault is injected it acts on the
  stored objects. Reads see all earlier writes.
\<close>

definition sameKey :: "ObjectMeta \<Rightarrow> ObjectMeta \<Rightarrow> bool" where
  "sameKey a b = (om_Name a = om_Name b \<and> om_Namespace a = om_Namespace b)"

definition store_has :: "('a \<Rightarrow> ObjectMeta) \<Rightarrow> 'a list \<Rightarrow> ObjectMeta \<Rightarrow> bool" where
  "store_has meta xs m = list_ex (\<lambda>x. sameKey (meta x) m) xs"

definition store_put :: "('a \<Rightarrow> ObjectMeta) \<Rightarrow> 'a list \<Rightarrow> 'a \<Rightarrow> 'a list" where
  "store_put meta xs x = map (\<lambda>y. if sameKey (meta y) (meta x) then x else y) xs"

definition store_remove :: "('a \<Rightarrow> ObjectMeta) \<Rightarrow> 'a list \<Rightarrow> ObjectMeta \<Rightarrow> 'a list" where
  "store_remove meta xs m = filter (\<lambda>y. \<not> sameKey (meta y) m) xs"

definition namespaceExists :: "World \<Rightarrow> string \<Rightarrow> bool" where
  "namespaceExists w n = list_ex (\<lambda>x. om_Name (kns_Meta x) = n) (w_namespaces w)"

subsection \<open>Namespaces\<close>

definition Get_namespace :: "Env \<Rightarrow> World \<Rightarrow> string \<Rightarrow> (Err + K8sNamespace) \<times> World" where
  "Get_namespace env w name =
     (case api_call env w of
        (Some e, w') \<Rightarrow> (Inl e, w')
      | (None, w') \<Rightarrow>
          (case find (\<lambda>x. om_Name (kns_Meta x) = name) (w_namespaces w') of
             None \<Rightarrow> (Inl NotFound, w')
           | Some x \<Rightarrow> (Inr x, w')))"

definition Create_namespace :: "Env \<Rightarrow> World \<Rightarrow> K8sNamespace \<Rightarrow> Err option \<times> World" where
  "Create_namespace env w x =
     (case api_call env w of
        (Some e, w') \<Rightarrow> (Some e, w')
      | (None, w') \<Rightarrow>
          if namespaceExists w' (om_Name (kns_Meta x)) then (Some AlreadyExists, w')
          else (None, w'\<lparr> w_namespaces := w_namespaces w' @ [x] \<rparr>))"

subsection \<open>ServiceAccounts\<close>

text \<open>An object of a namespaced kind cannot be created in a namespace that does not exist.\<close>

definition Create_serviceAccount :: "Env \<Rightarrow> World \<Rightarrow> K8sServiceAccount \<Rightarrow> Err option \<times> World" where
  "Create_serviceAccount env w x =
     (case api_call env w of
        (Some e, w') \<Rightarrow> (Some e, w')
      | (None, w') \<Rightarrow>
          if \<not> namespaceExists w' (om_Namespace (ksa_Meta x)) then (Some NotFound, w')
          else if store_has ksa_Meta (w_serviceAccounts w') (ksa_Meta x) then (Some AlreadyExists, w')
          else (None, w'\<lparr> w_serviceAccounts := w_serviceAccounts w' @ [x] \<rparr>))"

definition Update_serviceAccount :: "Env \<Rightarrow> World \<Rightarrow> K8sServiceAccount \<Rightarrow> Err option \<times> World" where
  "Update_serviceAccount env w x =
     (case api_call env w of
        (Some e, w') \<Rightarrow> (Some e, w')
      | (None, w') \<Rightarrow>
          if \<not> store_has ksa_Meta (w_serviceAccounts w') (ksa_Meta x) then (Some NotFound, w')
          else (None, w'\<lparr> w_serviceAccounts := store_put ksa_Meta (w_serviceAccounts w') x \<rparr>))"

definition List_serviceAccounts :: "Env \<Rightarrow> World \<Rightarrow> Selector \<Rightarrow> (Err + K8sServiceAccount list) \<times> World" where
  "List_serviceAccounts env w sel =
     (case api_call env w of
        (Some e, w') \<Rightarrow> (Inl e, w')
      | (None, w') \<Rightarrow>
          (Inr (filter (\<lambda>x. sel_Matches sel (om_Labels (ksa_Meta x))) (w_serviceAccounts w')), w'))"

definition Delete_serviceAccount :: "Env \<Rightarrow> World \<Rightarrow> K8sServiceAccount \<Rightarrow> Err option \<times> World" where
  "Delete_serviceAccount env w x =
     (case api_call env w of
        (Some e, w') \<Rightarrow> (Some e, w')
      | (None, w') \<Rightarrow>
          if \<not> store_has ksa_Meta (w_serviceAccounts w') (ksa_Meta x) then (Some NotFound, w')
          else (None, w'\<lparr> w_serviceAccounts := store_remove ksa_Meta (w_serviceAccounts w') (ksa_Meta x) \<rparr>))"

subsection \<open>RoleBindings\<close>

definition Create_roleBinding :: "Env \<Rightarrow> World \<Rightarrow> K8sRoleBinding \<Rightarrow> Err option \<times> World" where
  "Create_roleBinding env w x =
     (case api_call env w of
        (Some e, w') \<Rightarrow> (Some e, w')
      | (None, w') \<Rightarrow>
          if \<not> namespaceExists w' (om_Namespace (krb_Meta x)) then (Some NotFound, w')
          else if store_has krb_Meta (w_roleBindings w') (krb_Meta x) then (Some AlreadyExists, w')
          else (None, w'\<lparr> w_roleBindings := w_roleBindings w' @ [x] \<rparr>))"

text \<open>The API server refuses an update that changes the role reference of a binding.\<close>

definition Update_roleBinding :: "Env \<Rightarrow> World \<Rightarrow> K8sRoleBinding \<Rightarrow> Err option \<times> World" where
  "Update_roleBinding env w x =
     (case api_call env w of
        (Some e, w') \<Rightarrow> (Some e, w')
      | (None, w') \<Rightarrow>
          (case find (\<lambda>y. sameKey (krb_Meta y) (krb_Meta x)) (w_roleBindings w') of
             None \<Rightarrow> (Some NotFound, w')
           | Some y \<Rightarrow>
               if krb_RoleRef y \<noteq> krb_RoleRef x then (Some Invalid, w')
               else (None, w'\<lparr> w_roleBindings := store_put krb_Meta (w_roleBindings w') x \<rparr>)))"

definition List_roleBindings :: "Env \<Rightarrow> World \<Rightarrow> Selector \<Rightarrow> (Err + K8sRoleBinding list) \<times> World" where
  "List_roleBindings env w sel =
     (case api_call env w of
        (Some e, w') \<Rightarrow> (Inl e, w')
      | (None, w') \<Rightarrow>
          (Inr (filter (\<lambda>x. sel_Matches sel (om_Labels (krb_Meta x))) (w_roleBindings w')), w'))"

definition Delete_roleBinding :: "Env \<Rightarrow> World \<Rightarrow> K8sRoleBinding \<Rightarrow> Err option \<times> World" where
  "Delete_roleBinding env w x =
     (case api_call env w of
        (Some e, w') \<Rightarrow> (Some e, w')
      | (None, w') \<Rightarrow>
          if \<not> store_has krb_Meta (w_roleBindings w') (krb_Meta x) then (Some NotFound, w')
          else (None, w'\<lparr> w_roleBindings := store_remove krb_Meta (w_roleBindings w') (krb_Meta x) \<rparr>))"

subsection \<open>ClusterRoleBindings\<close>

definition Create_clusterRoleBinding :: "Env \<Rightarrow> World \<Rightarrow> K8sClusterRoleBinding \<Rightarrow> Err option \<times> World" where
  "Create_clusterRoleBinding env w x =
     (case api_call env w of
        (Some e, w') \<Rightarrow> (Some e, w')
      | (None, w') \<Rightarrow>
          if store_has kcrb_Meta (w_clusterRoleBindings w') (kcrb_Meta x) then (Some AlreadyExists, w')
          else (None, w'\<lparr> w_clusterRoleBindings := w_clusterRoleBindings w' @ [x] \<rparr>))"

definition Update_clusterRoleBinding :: "Env \<Rightarrow> World \<Rightarrow> K8sClusterRoleBinding \<Rightarrow> Err option \<times> World" where
  "Update_clusterRoleBinding env w x =
     (case api_call env w of
        (Some e, w') \<Rightarrow> (Some e, w')
      | (None, w') \<Rightarrow>
          (case find (\<lambda>y. sameKey (kcrb_Meta y) (kcrb_Meta x)) (w_clusterRoleBindings w') of
             None \<Rightarrow> (Some NotFound, w')
           | Some y \<Rightarrow>
               if kcrb_RoleRef y \<noteq> kcrb_RoleRef x then (Some Invalid, w')
               else (None, w'\<lparr> w_clusterRoleBindings := store_put kcrb_Meta (w_clusterRoleBindings w') x \<rparr>)))"

definition List_clusterRoleBindings :: "Env \<Rightarrow> World \<Rightarrow> Selector \<Rightarrow> (Err + K8sClusterRoleBinding list) \<times> World" where
  "List_clusterRoleBindings env w sel =
     (case api_call env w of
        (Some e, w') \<Rightarrow> (Inl e, w')
      | (None, w') \<Rightarrow>
          (Inr (filter (\<lambda>x. sel_Matches sel (om_Labels (kcrb_Meta x))) (w_clusterRoleBindings w')), w'))"

definition Delete_clusterRoleBinding :: "Env \<Rightarrow> World \<Rightarrow> K8sClusterRoleBinding \<Rightarrow> Err option \<times> World" where
  "Delete_clusterRoleBinding env w x =
     (case api_call env w of
        (Some e, w') \<Rightarrow> (Some e, w')
      | (None, w') \<Rightarrow>
          if \<not> store_has kcrb_Meta (w_clusterRoleBindings w') (kcrb_Meta x) then (Some NotFound, w')
          else (None, w'\<lparr> w_clusterRoleBindings :=
                  store_remove kcrb_Meta (w_clusterRoleBindings w') (kcrb_Meta x) \<rparr>))"

subsection \<open>RBACRules\<close>

text \<open>
  The RBACRule kind has a status subresource (the \<^verbatim>\<open>+kubebuilder:subresource:status\<close>
  marker): \<^verbatim>\<open>Update\<close> stores metadata and spec and keeps the stored status,
  \<^verbatim>\<open>Status().Update\<close> stores the status only. Both answer with the stored object, which
  the client writes back into the caller's variable. The deletion timestamp is
  the server's: an object with finalizers is only marked by \<^verbatim>\<open>Delete\<close>, and it
  goes away when an update leaves a marked object without finalizers.
\<close>

definition Get_rule :: "Env \<Rightarrow> World \<Rightarrow> string \<Rightarrow> string \<Rightarrow> (Err + RBACRule) \<times> World" where
  "Get_rule env w ns name =
     (case api_call env w of
        (Some e, w') \<Rightarrow> (Inl e, w')
      | (None, w') \<Rightarrow>
          (case find (\<lambda>x. om_Name (r_Meta x) = name \<and> om_Namespace (r_Meta x) = ns) (w_rules w') of
             None \<Rightarrow> (Inl NotFound, w')
           | Some x \<Rightarrow> (Inr x, w')))"

definition Update_rule :: "Env \<Rightarrow> World \<Rightarrow> RBACRule \<Rightarrow> (Err + RBACRule) \<times> World" where
  "Update_rule env w x =
     (case api_call env w of
        (Some e, w') \<Rightarrow> (Inl e, w')
      | (None, w') \<Rightarrow>
          (case find (\<lambda>y. sameKey (r_Meta y) (r_Meta x)) (w_rules w') of
             None \<Rightarrow> (Inl NotFound, w')
           | Some y \<Rightarrow>
               (let new = y\<lparr> r_Meta := (r_Meta x)\<lparr> om_DeletionTimestamp := om_DeletionTimestamp (r_Meta y) \<rparr>,
                             r_Spec := r_Spec x \<rparr>
                in if om_DeletionTimestamp (r_Meta new) \<noteq> None \<and> om_Finalizers (r_Meta new) = []
                   then (Inr new, w'\<lparr> w_rules := store_remove r_Meta (w_rules w') (r_Meta x) \<rparr>)
                   else (Inr new, w'\<lparr> w_rules := store_put r_Meta (w_rules w') new \<rparr>))))"

definition StatusUpdate_rule :: "Env \<Rightarrow> World \<Rightarrow> RBACRule \<Rightarrow> (Err + RBACRule) \<times> World" where
  "StatusUpdate_rule env w x =
     (case api_call env w of
        (Some e, w') \<Rightarrow> (Inl e, w')
      | (None, w') \<Rightarrow>
          (case find (\<lambda>y. sameKey (r_Meta y) (r_Meta x)) (w_rules w') of
             None \<Rightarrow> (Inl NotFound, w')
           | Some y \<Rightarrow>
               (let new = y\<lparr> r_Status := r_Status x \<rparr>
                in (Inr new, w'\<lparr> w_rules := store_put r_Meta (w_rules w') new \<rparr>))))"

definition Delete_rule :: "Env \<Rightarrow> World \<Rightarrow> RBACRule \<Rightarrow> Err option \<times> World" where
  "Delete_rule env w x =
     (case api_call env w of
        (Some e, w') \<Rightarrow> (Some e, w')
      | (None, w') \<Rightarrow>
          (case find (\<lambda>y. sameKey (r_Meta y) (r_Meta x)) (w_rules w') of
             None \<Rightarrow> (Some NotFound, w')
           | Some y \<Rightarrow>
               if om_Finalizers (r_Meta y) = []
               then (None, w'\<lparr> w_rules := store_remove r_Meta (w_rules w') (r_Meta x) \<rparr>)
               else if om_DeletionTimestamp (r_Meta y) \<noteq> None then (None, w')
               else (None, w'\<lparr> w_rules := store_put r_Meta (w_rules w')
                       (y\<lparr> r_Meta := (r_Meta y)\<lparr> om_DeletionTimestamp :=
                              Some (At (clock env (w_ticks w'))) \<rparr> \<rparr>) \<rparr>)))"

section \<open>The reconciler\<close>

definition RBACRuleFinalizer :: string where
  "RBACRuleFinalizer = ''rbac-controller.io/cleanup-rbac-rule''"

text \<open>\<^verbatim>\<open>ctrl.Result\<close>; \<open>res_RequeueAfter\<close> is a \<^verbatim>\<open>time.Duration\<close>, in nanoseconds.\<close>

record Result =
  res_Requeue :: bool
  res_RequeueAfter :: int

definition emptyResult :: Result where
  "emptyResult = \<lparr> res_Requeue = False, res_RequeueAfter = 0 \<rparr>"

definition requeueAfter :: "int \<Rightarrow> Result" where
  "requeueAfter d = \<lparr> res_Requeue = False, res_RequeueAfter = d \<rparr>"

definition halfSecond :: int where
  "halfSecond = 500 * 1000000"

subsection \<open>Helpers of the libraries\<close>

definition ContainsFinalizer :: "RBACRule \<Rightarrow> string \<Rightarrow> bool" where
  "ContainsFinalizer r f = (f \<in> set (om_Finalizers (r_Meta r)))"

definition AddFinalizer :: "RBACRule \<Rightarrow> string \<Rightarrow> RBACRule" where
  "AddFinalizer r f =
     (if f \<in> set (om_Finalizers (r_Meta r)) then r
      else r\<lparr> r_Meta := (r_Meta r)\<lparr> om_Finalizers := om_Finalizers (r_Meta r) @ [f] \<rparr> \<rparr>)"

definition RemoveFinalizer :: "RBACRule \<Rightarrow> string \<Rightarrow> RBACRule" where
  "RemoveFinalizer r f =
     r\<lparr> r_Meta := (r_Meta r)\<lparr> om_Finalizers := filter (\<lambda>x. x \<noteq> f) (om_Finalizers (r_Meta r)) \<rparr> \<rparr>"

text \<open>\<^verbatim>\<open>slices.Index\<close>: the first index of a value, or \<open>-1\<close>.\<close>

fun slices_Index :: "'a list \<Rightarrow> 'a \<Rightarrow> int" where
  "slices_Index [] v = -1"
| "slices_Index (x # xs) v =
     (if x = v then 0 else (let i = slices_Index xs v in if i = -1 then -1 else i + 1))"

text \<open>
  \<^verbatim>\<open>slices.Delete(s, i, j)\<close> removes \<^verbatim>\<open>s[i:j]\<close>. It starts with the bounds check
  \<^verbatim>\<open>_ = s[i:j:len(s)]\<close>, which panics unless \<open>0 \<le> i \<le> j \<le> len(s)\<close>; a panic is \<open>None\<close>.
\<close>

definition slices_Delete :: "'a list \<Rightarrow> int \<Rightarrow> int \<Rightarrow> 'a list option" where
  "slices_Delete s i j =
     (if 0 \<le> i \<and> i \<le> j \<and> j \<le> int (length s)
      then Some (take (nat i) s @ drop (nat j) s)
      else None)"

text \<open>
  \<^verbatim>\<open>metav1.NewControllerRef\<close> for the rule (API version, UID and the
  block-owner-deletion flag are left out).
\<close>

definition NewControllerRef :: "RBACRule \<Rightarrow> OwnerReference" where
  "NewControllerRef r = \<lparr> or_Kind = ''RBACRule'', or_Name = om_Name (r_Meta r), or_Controller = True \<rparr>"

subsection \<open>Creating the generated objects\<close>

definition checkNamespace :: "Env \<Rightarrow> World \<Rightarrow> string \<Rightarrow> OwnerReference list \<Rightarrow> Err option \<times> World" where
  "checkNamespace env w name ownerRef =
     (case Get_namespace env w name of
        (Inl e, w1) \<Rightarrow>
          if e = NotFound then
            Create_namespace env w1
              \<lparr> kns_Meta = emptyMeta\<lparr> om_Name := name, om_OwnerReferences := ownerRef \<rparr> \<rparr>
          else (Some e, w1)
      | (Inr ns, w1) \<Rightarrow> (None, w1))"

definition mkSA :: "string \<Rightarrow> string \<Rightarrow> labelmap \<Rightarrow> OwnerReference list \<Rightarrow> K8sServiceAccount" where
  "mkSA name ns RBACLAbel ownerRef =
     \<lparr> ksa_Meta = emptyMeta\<lparr> om_Name := name, om_Namespace := ns, om_Labels := RBACLAbel,
          om_OwnerReferences := ownerRef \<rparr> \<rparr>"

definition createSA :: "Env \<Rightarrow> World \<Rightarrow> string \<Rightarrow> string \<Rightarrow> labelmap \<Rightarrow> OwnerReference list
    \<Rightarrow> Err option \<times> World" where
  "createSA env w name ns RBACLAbel ownerRef =
     (case Create_serviceAccount env w (mkSA name ns RBACLAbel ownerRef) of
        (Some e, w1) \<Rightarrow>
          if e = AlreadyExists then Update_serviceAccount env w1 (mkSA name ns RBACLAbel ownerRef)
          else (Some e, w1)
      | (None, w1) \<Rightarrow> (None, w1))"

definition createCRB :: "Env \<Rightarrow> World \<Rightarrow> K8sClusterRoleBinding \<Rightarrow> Err option \<times> World" where
  "createCRB env w crb =
     (case Create_clusterRoleBinding env w crb of
        (Some e, w1) \<Rightarrow>
          if e = AlreadyExists then Update_clusterRoleBinding env w1 crb else (Some e, w1)
      | (None, w1) \<Rightarrow> (None, w1))"

definition createCR :: "Env \<Rightarrow> World \<Rightarrow> K8sRoleBinding \<Rightarrow> Err option \<times> World" where
  "createCR env w cr =
     (case Create_roleBinding env w cr of
        (Some e, w1) \<Rightarrow>
          if e = AlreadyExists then Update_roleBinding env w1 cr else (Some e, w1)
      | (None, w1) \<Rightarrow> (None, w1))"

subsection \<open>The loops of \<^verbatim>\<open>Reconcile\<close> over one parsed binding\<close>

text \<open>
  Each loop either runs to its end (\<open>None\<close>) or makes \<^verbatim>\<open>Reconcile\<close> return (\<open>Some\<close> of
  the result and error returned). The loops over bindings update the rule held in
  the local variable, so they return it.
\<close>

type_synonym Return = "Result \<times> Err option"

fun applySubjects :: "Env \<Rightarrow> World \<Rightarrow> labelmap \<Rightarrow> OwnerReference list \<Rightarrow> RbacSubject list
    \<Rightarrow> Return option \<times> World" where
  "applySubjects env w RBAClabels ownerRef [] = (None, w)"
| "applySubjects env w RBAClabels ownerRef (s # ss) =
     (if sub_Kind s = ServiceAccount then
        (case checkNamespace env w (sub_Namespace s) ownerRef of
           (Some e, w1) \<Rightarrow>
             (Some (requeueAfter halfSecond, None), log_Error ''Failed to create namespace'' w1)
         | (None, w1) \<Rightarrow>
             (case createSA env w1 (sub_Name s) (sub_Namespace s) RBAClabels ownerRef of
                (Some e, w2) \<Rightarrow>
                  (Some (requeueAfter halfSecond, None), log_Error ''Failed to create SA'' w2)
              | (None, w2) \<Rightarrow> applySubjects env w2 RBAClabels ownerRef ss))
      else applySubjects env w RBAClabels ownerRef ss)"

fun applyCRBs :: "Env \<Rightarrow> World \<Rightarrow> RBACRule \<Rightarrow> K8sClusterRoleBinding list
    \<Rightarrow> Return option \<times> RBACRule \<times> World" where
  "applyCRBs env w rule [] = (None, rule, w)"
| "applyCRBs env w rule (crb # crbs) =
     (case createCRB env w crb of
        (Some e, w1) \<Rightarrow>
          (Some (requeueAfter halfSecond, None), rule, log_Error ''Failed to create CRB'' w1)
      | (None, w1) \<Rightarrow>
          if slices_Index (st_ClusterRoleBindings (r_Status rule)) (om_Name (kcrb_Meta crb)) = -1 then
            (let rule1 = rule\<lparr> r_Status := (r_Status rule)\<lparr> st_ClusterRoleBindings :=
                           st_ClusterRoleBindings (r_Status rule) @ [om_Name (kcrb_Meta crb)] \<rparr> \<rparr>
             in case StatusUpdate_rule env w1 rule1 of
                  (Inl e, w2) \<Rightarrow>
                    (Some (emptyResult, Some e), rule1, log_Error ''Failed to update RBACRule status'' w2)
                | (Inr rule2, w2) \<Rightarrow> applyCRBs env w2 rule2 crbs)
          else applyCRBs env w1 rule crbs)"

definition rbKey :: "K8sRoleBinding \<Rightarrow> string" where
  "rbKey rb = om_Namespace (krb_Meta rb) @ ''/'' @ om_Name (krb_Meta rb)"

fun applyRBs :: "Env \<Rightarrow> World \<Rightarrow> RBACRule \<Rightarrow> K8sRoleBinding list
    \<Rightarrow> Return option \<times> RBACRule \<times> World" where
  "applyRBs env w rule [] = (None, rule, w)"
| "applyRBs env w rule (rb # rbs) =
     (case createCR env w rb of
        (Some e, w1) \<Rightarrow>
          (Some (requeueAfter halfSecond, Some e), rule, log_Error ''Failed to create RB'' w1)
      | (None, w1) \<Rightarrow>
          if slices_Index (st_RoleBindings (r_Status rule)) (rbKey rb) = -1 then
            (let rule1 = rule\<lparr> r_Status := (r_Status rule)\<lparr> st_RoleBindings :=
                           st_RoleBindings (r_Status rule) @ [rbKey rb] \<rparr> \<rparr>
             in case StatusUpdate_rule env w1 rule1 of
                  (Inl e, w2) \<Rightarrow>
                    (Some (emptyResult, Some e), rule1, log_Error ''Failed to update RBACRule status'' w2)
                | (Inr rule2, w2) \<Rightarrow> applyRBs env w2 rule2 rbs)
          else applyRBs env w1 rule rbs)"

text \<open>
  What \<^verbatim>\<open>Reconcile\<close> does with the parser after \<^verbatim>\<open>Parse\<close> returned, whether or not it
  returned an error: service accounts, then ClusterRoleBindings, then RoleBindings.
\<close>

definition applyParsed :: "Env \<Rightarrow> World \<Rightarrow> RBACRule \<Rightarrow> labelmap \<Rightarrow> OwnerReference list \<Rightarrow> Parser
    \<Rightarrow> Return option \<times> RBACRule \<times> World" where
  "applyParsed env w rule RBAClabels ownerRef p =
     (case applySubjects env w RBAClabels ownerRef (p_Subjects p) of
        (Some r, w1) \<Rightarrow> (Some r, rule, w1)
      | (None, w1) \<Rightarrow>
          (case applyCRBs env w1 rule (p_ClusterRoleBindings p) of
             (Some r, rule1, w2) \<Rightarrow> (Some r, rule1, w2)
           | (None, rule1, w2) \<Rightarrow> applyRBs env w2 rule1 (p_RoleBindings p)))"

text \<open>
  The loop over \<^verbatim>\<open>RBACRule.Spec.Bindings\<close>. Each binding gets a fresh parser; an error
  of \<^verbatim>\<open>Parse\<close> is logged and nothing else.
\<close>

fun reconcileBindings :: "Env \<Rightarrow> World \<Rightarrow> RBACRule \<Rightarrow> labelmap \<Rightarrow> OwnerReference list \<Rightarrow> string
    \<Rightarrow> Binding list \<Rightarrow> Return option \<times> RBACRule \<times> World" where
  "reconcileBindings env w rule RBAClabels ownerRef name [] = (None, rule, w)"
| "reconcileBindings env w rule RBAClabels ownerRef name (b # bs) =
     (case Parse env w newParser b RBAClabels ownerRef name of
        (perr, p, w1) \<Rightarrow>
          (case applyParsed env
                  (case perr of None \<Rightarrow> w1 | Some e \<Rightarrow> log_Error ''failed to parse RBACBinding'' w1)
                  rule RBAClabels ownerRef p of
             (Some r, rule1, w2) \<Rightarrow> (Some r, rule1, w2)
           | (None, rule1, w2) \<Rightarrow> reconcileBindings env w2 rule1 RBAClabels ownerRef name bs))"

subsection \<open>Deletion\<close>

fun deleteRoleBindingItems :: "Env \<Rightarrow> World \<Rightarrow> RBACRule \<Rightarrow> K8sRoleBinding list
    \<Rightarrow> (Err option) Outcome \<times> RBACRule \<times> World" where
  "deleteRoleBindingItems env w rule [] = (Returns None, rule, w)"
| "deleteRoleBindingItems env w rule (rb # rbs) =
     (case Delete_roleBinding env w rb of
        (Some e, w1) \<Rightarrow> (Returns (Some e), rule, log_Error ''failed to delete roleBinding'' w1)
      | (None, w1) \<Rightarrow>
          (let i = slices_Index (st_RoleBindings (r_Status rule)) (om_Name (krb_Meta rb))
           in case slices_Delete (st_RoleBindings (r_Status rule)) i i of
                None \<Rightarrow> (Panics, rule, w1)
              | Some s \<Rightarrow>
                  (let rule1 = rule\<lparr> r_Status := (r_Status rule)\<lparr> st_RoleBindings := s \<rparr> \<rparr>
                   in case Update_rule env w1 rule1 of
                        (Inl e, w2) \<Rightarrow>
                          (Returns (Some e), rule1,
                           log_Error ''failed to remove role binding from status'' w2)
                      | (Inr rule2, w2) \<Rightarrow> deleteRoleBindingItems env w2 rule2 rbs)))"

fun deleteClusterRoleBindingItems :: "Env \<Rightarrow> World \<Rightarrow> RBACRule \<Rightarrow> K8sClusterRoleBinding list
    \<Rightarrow> (Err option) Outcome \<times> RBACRule \<times> World" where
  "deleteClusterRoleBindingItems env w rule [] = (Returns None, rule, w)"
| "deleteClusterRoleBindingItems env w rule (crb # crbs) =
     (case Delete_clusterRoleBinding env w crb of
        (Some e, w1) \<Rightarrow>
          (Returns (Some e), rule, log_Error ''failed to delete clusterRoleBinding'' w1)
      | (None, w1) \<Rightarrow>
          (let i = slices_Index (st_ClusterRoleBindings (r_Status rule)) (om_Name (kcrb_Meta crb))
           in case slices_Delete (st_ClusterRoleBindings (r_Status rule)) i i of
                None \<Rightarrow> (Panics, rule, w1)
              | Some s \<Rightarrow>
                  (let rule1 = rule\<lparr> r_Status := (r_Status rule)\<lparr> st_ClusterRoleBindings := s \<rparr> \<rparr>
                   in case Update_rule env w1 rule1 of
                        (Inl e, w2) \<Rightarrow>
                          (Returns (Some e), rule1,
                           log_Error ''failed to remove cluster role binding from status'' w2)
                      | (Inr rule2, w2) \<Rightarrow> deleteClusterRoleBindingItems env w2 rule2 crbs)))"

text \<open>The second half of \<^verbatim>\<open>deleteBindings\<close>: the ClusterRoleBindings.\<close>

definition deleteBindingsCRBs :: "Env \<Rightarrow> World \<Rightarrow> RBACRule \<Rightarrow> Selector
    \<Rightarrow> (Err option) Outcome \<times> RBACRule \<times> World" where
  "deleteBindingsCRBs env w rule ls =
     (if st_ClusterRoleBindings (r_Status rule) \<noteq> [] then
        (case List_clusterRoleBindings env w ls of
           (Inl e, w1) \<Rightarrow> (Returns (Some e), rule, log_Error ''failed to list role bindings'' w1)
         | (Inr items, w1) \<Rightarrow> deleteClusterRoleBindingItems env w1 rule items)
      else (Returns None, rule, w))"

definition deleteBindings :: "Env \<Rightarrow> World \<Rightarrow> RBACRule \<Rightarrow> Selector
    \<Rightarrow> (Err option) Outcome \<times> RBACRule \<times> World" where
  "deleteBindings env w rule ls =
     (if st_RoleBindings (r_Status rule) \<noteq> [] then
        (case List_roleBindings env w ls of
           (Inl e, w1) \<Rightarrow> (Returns (Some e), rule, log_Error ''failed to list role bindings'' w1)
         | (Inr items, w1) \<Rightarrow>
             (case deleteRoleBindingItems env w1 rule items of
                (Returns None, rule1, w2) \<Rightarrow> deleteBindingsCRBs env w2 rule1 ls
              | (out, rule1, w2) \<Rightarrow> (out, rule1, w2)))
      else deleteBindingsCRBs env w rule ls)"

fun deleteServiceAccountItems :: "Env \<Rightarrow> World \<Rightarrow> K8sServiceAccount list \<Rightarrow> Err option \<times> World" where
  "deleteServiceAccountItems env w [] = (None, w)"
| "deleteServiceAccountItems env w (sa # sas) =
     (case Delete_serviceAccount env w sa of
        (Some e, w1) \<Rightarrow>
          if e \<noteq> NotFound then (Some e, log_Error ''failed to delete service account'' w1)
          else deleteServiceAccountItems env w1 sas
      | (None, w1) \<Rightarrow> deleteServiceAccountItems env w1 sas)"

definition deleteServiceAccounts :: "Env \<Rightarrow> World \<Rightarrow> Selector \<Rightarrow> Err option \<times> World" where
  "deleteServiceAccounts env w ls =
     (case List_serviceAccounts env w ls of
        (Inl e, w1) \<Rightarrow> (Some e, log_Error ''error listing Rule's serviceaccounts'' w1)
      | (Inr items, w1) \<Rightarrow> deleteServiceAccountItems env w1 items)"

text \<open>The label set the deletion sweep selects on: \<^verbatim>\<open>strings.Join([Name, Namespace], "-")\<close>.\<close>

definition sweepLabels :: "Env \<Rightarrow> RBACRule \<Rightarrow> labelmap" where
  "sweepLabels env rule =
     [(RBACRuleLabel env, om_Name (r_Meta rule) @ ''-'' @ om_Namespace (r_Meta rule))]"

text \<open>The label set \<^verbatim>\<open>Reconcile\<close> puts on the objects it generates.\<close>

definition ownershipLabels :: "Env \<Rightarrow> RBACRule \<Rightarrow> labelmap" where
  "ownershipLabels env rule = [(RBACRuleLabel env, om_Name (r_Meta rule))]"

text \<open>The end of \<^verbatim>\<open>reconcileDelete\<close>: the finalizer is removed and the rule updated.\<close>

definition removeFinalizerAndUpdate :: "Env \<Rightarrow> World \<Rightarrow> RBACRule \<Rightarrow> (Err option) Outcome \<times> World" where
  "removeFinalizerAndUpdate env w rule =
     (case Update_rule env w (RemoveFinalizer rule RBACRuleFinalizer) of
        (Inl e, w1) \<Rightarrow> (Returns (Some e), log_Error ''failed to remove finalizer from RBACRule'' w1)
      | (Inr rule1, w1) \<Rightarrow> (Returns None, w1))"

definition reconcileDelete :: "Env \<Rightarrow> World \<Rightarrow> RBACRule \<Rightarrow> (Err option) Outcome \<times> World" where
  "reconcileDelete env w0 rule =
     (let w = log_Info ''Deleting RBACRule'' w0 in
      if ContainsFinalizer rule RBACRuleFinalizer then
        (case deleteBindings env w rule (SelectorFromSet (sweepLabels env rule)) of
           (Panics, rule1, w1) \<Rightarrow> (Panics, w1)
         | (Returns (Some e), rule1, w1) \<Rightarrow> (Returns (Some e), log_Error ''failed to delete bindings'' w1)
         | (Returns None, rule1, w1) \<Rightarrow>
             (case deleteServiceAccounts env w1 (SelectorFromSet (sweepLabels env rule)) of
                (Some e, w2) \<Rightarrow> (Returns (Some e), log_Error ''failed to delete ServiceAccounts'' w2)
              | (None, w2) \<Rightarrow> removeFinalizerAndUpdate env w2 rule1))
      else removeFinalizerAndUpdate env w rule)"

subsection \<open>\<^verbatim>\<open>Reconcile\<close>\<close>

text \<open>
  The last part of \<^verbatim>\<open>Reconcile\<close>: the end time. The clock is read only where the
  source calls \<^verbatim>\<open>time.Now\<close> or \<^verbatim>\<open>time.Until\<close>; \<^verbatim>\<open>&&\<close> does not evaluate its right
  operand when the left one is false.
\<close>

definition reconcileEnd :: "Env \<Rightarrow> World \<Rightarrow> RBACRule \<Rightarrow> Return \<times> World" where
  "reconcileEnd env w rule =
     (let end = spec_EndTime (r_Spec rule);
          (after, w1) = (if end \<noteq> ZeroTime
                         then (case time_Now env w of (now, w') \<Rightarrow> (time_After end now, w'))
                         else (False, w))
      in if after then
           (case time_Now env w1 of
              (now, w2) \<Rightarrow>
                ((requeueAfter (time_Sub end now), None),
                 log_Info ''Rule will be scheduled for deletion'' w2))
         else
           (case time_Now env w1 of
              (now, w2) \<Rightarrow>
                if time_Before end now then
                  (case Delete_rule env w2 rule of
                     (Some e, w3) \<Rightarrow> ((emptyResult, None), log_Error ''error deleting resource'' w3)
                   | (None, w3) \<Rightarrow> ((emptyResult, None), w3))
                else ((emptyResult, None), w2)))"

text \<open>The middle part: the bindings are expanded and applied, then the end time is looked at.\<close>

definition reconcileActive :: "Env \<Rightarrow> World \<Rightarrow> RBACRule \<Rightarrow> Return \<times> World" where
  "reconcileActive env w rule =
     (case reconcileBindings env w rule (ownershipLabels env rule) [NewControllerRef rule]
             (om_Name (r_Meta rule)) (spec_Bindings (r_Spec rule)) of
        (Some r, rule1, w1) \<Rightarrow> (r, w1)
      | (None, rule1, w1) \<Rightarrow> reconcileEnd env w1 rule1)"

text \<open>From the test of the deletion timestamp on: deletion, or the start-time gate.\<close>

definition reconcileFetched :: "Env \<Rightarrow> World \<Rightarrow> RBACRule \<Rightarrow> Return Outcome \<times> World" where
  "reconcileFetched env w rule =
     (if om_DeletionTimestamp (r_Meta rule) \<noteq> None then
        (case reconcileDelete env w rule of
           (Panics, w1) \<Rightarrow> (Panics, w1)
         | (Returns err, w1) \<Rightarrow> (Returns (emptyResult, err), w1))
      else
        (let start = spec_StartTime (r_Spec rule);
             (after, w1) = (if start \<noteq> ZeroTime
                            then (case time_Now env w of (now, w') \<Rightarrow> (time_After start now, w'))
                            else (False, w))
         in if after then
              (case time_Now env w1 of
                 (now, w2) \<Rightarrow>
                   (Returns (requeueAfter (time_Sub start now), None),
                    log_Info ''Rule shouldn't be active yet , waiting for start time'' w2))
            else (case reconcileActive env w1 rule of (r, w2) \<Rightarrow> (Returns r, w2))))"

text \<open>\<^verbatim>\<open>Reconcile\<close> for the request \<open>(ns, name)\<close>.\<close>

definition Reconcile :: "Env \<Rightarrow> World \<Rightarrow> string \<Rightarrow> string \<Rightarrow> Return Outcome \<times> World" where
  "Reconcile env w ns name =
     (case Get_rule env w ns name of
        (Inl e, w1) \<Rightarrow>
          if e = NotFound then (Returns (emptyResult, None), log_Info ''Rule might been deleted'' w1)
          else (Returns (emptyResult, Some e), w1)
      | (Inr rule, w1) \<Rightarrow>
          if om_DeletionTimestamp (r_Meta rule) = None \<and> \<not> ContainsFinalizer rule RBACRuleFinalizer then
            (case Update_rule env w1 (AddFinalizer rule RBACRuleFinalizer) of
               (Inl e, w2) \<Rightarrow> (Returns (emptyResult, Some e), log_Error ''failed to add finalizer'' w2)
             | (Inr rule1, w2) \<Rightarrow> reconcileFetched env w2 rule1)
          else reconcileFetched env w1 rule)"

section \<open>The expansion in closed form\<close>

text \<open>
  The parser threads its state through loops and API calls. The functions below
  say what it computes as a function of the namespaces stored in the cluster;
  lemma \<open>Parse_ok\<close> below proves that \<^verbatim>\<open>Parse\<close> computes exactly this when it returns
  no error.
\<close>

text \<open>The names \<^verbatim>\<open>retrieveNamespaces\<close> returns for a selector over the stored namespaces.\<close>

definition selectedNamespaces :: "Env \<Rightarrow> K8sNamespace list \<Rightarrow> LabelSelector \<Rightarrow> string list" where
  "selectedNamespaces env nss ls =
     (if ls_MatchExpressions ls \<noteq> [] \<or> ls_MatchLabels ls \<noteq> None then
        (case LabelSelectorAsSelector env ls of
           Inl e \<Rightarrow> []
         | Inr sel \<Rightarrow> map om_Name (filter (\<lambda>m. sel_Matches sel (om_Labels m)) (map kns_Meta nss)))
      else [])"

text \<open>The subjects one declared subject expands to.\<close>

definition expandSubject :: "Env \<Rightarrow> K8sNamespace list \<Rightarrow> Subject \<Rightarrow> RbacSubject list" where
  "expandSubject env nss s =
     (if s_Kind s = User then [userSubject (s_Name s)]
      else if s_Kind s = Group then [groupSubject (s_Name s)]
      else if s_Kind s = ServiceAccount then
        map (saSubject (s_Name s)) (selectedNamespaces env nss (s_NameSpaceSelector s) @ s_Namespaces s)
      else [])"

text \<open>How many of the two fields \<^verbatim>\<open>role\<close> and \<^verbatim>\<open>clusterRole\<close> of a declaration are set.\<close>

definition rolesOf :: "RoleBindingSpec \<Rightarrow> nat" where
  "rolesOf rb = (if rb_ClusterRole rb \<noteq> [] then 1 else 0) + (if rb_Role rb \<noteq> [] then 1 else 0)"

definition expandRBs :: "Env \<Rightarrow> K8sNamespace list \<Rightarrow> string \<Rightarrow> string \<Rightarrow> labelmap \<Rightarrow> OwnerReference list
    \<Rightarrow> RbacSubject list \<Rightarrow> RoleBindingSpec list \<Rightarrow> K8sRoleBinding list" where
  "expandRBs env nss rn bn L ownerRef subjects RBs =
     concat (map (\<lambda>rb. expandRB env rn bn L ownerRef subjects rb
                          (selectedNamespaces env nss (rb_NameSpaceSelector rb) @ rb_Namespaces rb)) RBs)"

definition expansion :: "Env \<Rightarrow> K8sNamespace list \<Rightarrow> Binding \<Rightarrow> labelmap \<Rightarrow> OwnerReference list \<Rightarrow> string \<Rightarrow> Parser" where
  "expansion env nss b L ownerRef rn =
     (let subjects = concat (map (expandSubject env nss) (b_Subjects b)) in
      \<lparr> p_Subjects = subjects,
        p_RoleBindings = expandRBs env nss rn (b_Name b) L ownerRef subjects (b_RoleBindings b),
        p_ClusterRoleBindings = map (mkCRB env rn (b_Name b) L ownerRef subjects) (b_ClusterRoleBindings b) \<rparr>)"


section \<open>The frame of a reconciliation\<close>

text \<open>
  What a run may do to the generated objects and the log when it is only allowed to
  add objects labelled \<open>L\<close>: every ServiceAccount, RoleBinding and
  ClusterRoleBinding of the later world is one of the earlier world or carries
  exactly the labels \<open>L\<close>, every namespace of the later world is one of the earlier
  world or carries no label, and no log entry is lost.
\<close>

definition adds_only :: "labelmap \<Rightarrow> World \<Rightarrow> World \<Rightarrow> bool" where
  "adds_only L w w' \<longleftrightarrow>
     set (w_log w) \<subseteq> set (w_log w')
     \<and> (\<forall>x \<in> set (w_serviceAccounts w'). x \<in> set (w_serviceAccounts w) \<or> om_Labels (ksa_Meta x) = L)
     \<and> (\<forall>x \<in> set (w_roleBindings w'). x \<in> set (w_roleBindings w) \<or> om_Labels (krb_Meta x) = L)
     \<and> (\<forall>x \<in> set (w_clusterRoleBindings w'). x \<in> set (w_clusterRoleBindings w) \<or> om_Labels (kcrb_Meta x) = L)
     \<and> (\<forall>x \<in> set (w_namespaces w'). x \<in> set (w_namespaces w) \<or> om_Labels (kns_Meta x) = [])"

section \<open>Worked examples\<close>

text \<open>
  A concrete environment for the examples: a label key, a name generator that
  joins its four arguments with dashes, lexical checks that accept every key and
  value, a clock that starts at 1000 and advances by one with each reading, and an
  API that never fails on its own. The general theorems hold for every
  environment.
\<close>

definition sampleEnv :: Env where
  "sampleEnv = \<lparr> RBACRuleLabel = ''rbac-controller.io/rbac-rule'',
     GenerateName = (\<lambda>r b k n. r @ ''-'' @ b @ ''-'' @ k @ ''-'' @ n),
     validLabelKey = (\<lambda>k. True), validLabelValue = (\<lambda>v. True),
     clock = (\<lambda>k. 1000 + int k), apiFault = (\<lambda>k. None) \<rparr>"

definition noSelector :: LabelSelector where
  "noSelector = \<lparr> ls_MatchLabels = None, ls_MatchExpressions = [] \<rparr>"

definition devSelector :: LabelSelector where
  "devSelector = \<lparr> ls_MatchLabels = Some [(''env'', ''dev'')], ls_MatchExpressions = [] \<rparr>"


definition mkNamespace :: "string \<Rightarrow> labelmap \<Rightarrow> K8sNamespace" where
  "mkNamespace n ls = \<lparr> kns_Meta = emptyMeta\<lparr> om_Name := n, om_Labels := ls \<rparr> \<rparr>"

definition emptyWorld :: World where
  "emptyWorld = \<lparr> w_rules = [], w_namespaces = [], w_serviceAccounts = [], w_roleBindings = [],
     w_clusterRoleBindings = [], w_calls = 0, w_ticks = 0, w_log = [] \<rparr>"

definition devWorld :: World where
  "devWorld = emptyWorld\<lparr> w_namespaces :=
     [mkNamespace ''ns-1'' [(''env'', ''dev'')], mkNamespace ''ns-2'' [(''env'', ''dev'')],
      mkNamespace ''team-a'' []] \<rparr>"

definition devBinding :: Binding where
  "devBinding = \<lparr> b_Name = ''dev'',
     b_Subjects = [\<lparr> s_Kind = ServiceAccount, s_Name = ''sa1'', s_Namespaces = [],
                     s_NameSpaceSelector = devSelector, s_NamespaceMatchExpression = [] \<rparr>],
     b_RoleBindings = [\<lparr> rb_Role = ''edit'', rb_ClusterRole = ''view'', rb_Namespaces = [''team-a''],
                         rb_NameSpaceSelector = devSelector, rb_NamespaceMatchExpression = [] \<rparr>],
     b_ClusterRoleBindings = [\<lparr> crb_ClusterRole = ''audit'' \<rparr>] \<rparr>"

text \<open>A binding whose explicit namespace is also matched by its selector.\<close>

definition overlapBinding :: Binding where
  "overlapBinding = \<lparr> b_Name = ''dev'',
     b_Subjects = [\<lparr> s_Kind = ServiceAccount, s_Name = ''sa1'', s_Namespaces = [''ns-1''],
                     s_NameSpaceSelector = devSelector, s_NamespaceMatchExpression = [] \<rparr>],
     b_RoleBindings = [\<lparr> rb_Role = ''edit'', rb_ClusterRole = [], rb_Namespaces = [''ns-1''],
                         rb_NameSpaceSelector = devSelector, rb_NamespaceMatchExpression = [] \<rparr>],
     b_ClusterRoleBindings = [] \<rparr>"


text \<open>A rule in its active window: no start time, an end time ahead of the sample clock.\<close>

definition sampleRule :: RBACRule where
  "sampleRule = \<lparr> r_Meta = emptyMeta\<lparr> om_Name := ''r'' \<rparr>,
     r_Spec = \<lparr> spec_Bindings = [devBinding], spec_StartTime = ZeroTime, spec_EndTime = At 5000,
                spec_CreateSA = True \<rparr>,
     r_Status = \<lparr> st_RoleBindings = [], st_ClusterRoleBindings = [] \<rparr> \<rparr>"

definition sampleWorld :: World where
  "sampleWorld = devWorld\<lparr> w_rules := [sampleRule] \<rparr>"

text \<open>
  The world after one reconciliation of the sample rule, and then after the rule
  was deleted through the API (which marks it, since it carries the finalizer).
\<close>

definition activeWorld :: World where
  "activeWorld = snd (Reconcile sampleEnv sampleWorld [] ''r'')"

definition deletingWorld :: World where
  "deletingWorld = snd (Delete_rule sampleEnv activeWorld sampleRule)"

text \<open>
  A rule that is being deleted and records one ClusterRoleBinding, in a cluster
  that holds that ClusterRoleBinding under the label the sweep selects on; and the
  same with one RoleBinding.
\<close>

definition sweptRule :: RBACRule where
  "sweptRule = \<lparr> r_Meta = emptyMeta\<lparr> om_Name := ''r'', om_Namespace := ''ops'',
                    om_Finalizers := [RBACRuleFinalizer], om_DeletionTimestamp := Some (At 900) \<rparr>,
     r_Spec = \<lparr> spec_Bindings = [], spec_StartTime = ZeroTime, spec_EndTime = ZeroTime,
                spec_CreateSA = True \<rparr>,
     r_Status = \<lparr> st_RoleBindings = [], st_ClusterRoleBindings = [''crb1''] \<rparr> \<rparr>"

definition sweptCRB :: K8sClusterRoleBinding where
  "sweptCRB = \<lparr> kcrb_Meta = emptyMeta\<lparr> om_Name := ''crb1'', om_Labels := sweepLabels sampleEnv sweptRule \<rparr>,
     kcrb_Subjects = [userSubject ''alice''],
     kcrb_RoleRef = \<lparr> rr_APIGroup = RBACApiGroup, rr_Kind = CRB, rr_Name = ''view'' \<rparr> \<rparr>"

definition sweptWorld :: World where
  "sweptWorld = devWorld\<lparr> w_rules := [sweptRule], w_clusterRoleBindings := [sweptCRB] \<rparr>"

definition sweptRule2 :: RBACRule where
  "sweptRule2 = sweptRule\<lparr> r_Status := \<lparr> st_RoleBindings = [''team-a/rb1''], st_ClusterRoleBindings = [] \<rparr> \<rparr>"

definition sweptRB :: K8sRoleBinding where
  "sweptRB = \<lparr> krb_Meta = emptyMeta\<lparr> om_Name := ''rb1'', om_Namespace := ''team-a'',
                   om_Labels := sweepLabels sampleEnv sweptRule2 \<rparr>,
     krb_Subjects = [userSubject ''alice''],
     krb_RoleRef = \<lparr> rr_APIGroup = RBACApiGroup, rr_Kind = RB, rr_Name = ''edit'' \<rparr> \<rparr>"

definition sweptWorld2 :: World where
  "sweptWorld2 = devWorld\<lparr> w_rules := [sweptRule2], w_roleBindings := [sweptRB] \<rparr>"

text \<open>A rule with neither start nor end time, and no bindings.\<close>

definition noEndRule :: RBACRule where
  "noEndRule = \<lparr> r_Meta = emptyMeta\<lparr> om_Name := ''r'' \<rparr>,
     r_Spec = \<lparr> spec_Bindings = [], spec_StartTime = ZeroTime, spec_EndTime = ZeroTime,
                spec_CreateSA = True \<rparr>,
     r_Status = \<lparr> st_RoleBindings = [], st_ClusterRoleBindings = [] \<rparr> \<rparr>"

definition noEndWorld :: World where
  "noEndWorld = devWorld\<lparr> w_rules := [noEndRule] \<rparr>"

text \<open>A rule whose only subject is a ServiceAccount in a namespace that does not exist yet.\<close>

definition freshRule :: RBACRule where
  "freshRule = \<lparr> r_Meta = emptyMeta\<lparr> om_Name := ''r'' \<rparr>,
     r_Spec = \<lparr> spec_Bindings =
        [\<lparr> b_Name = ''b'',
           b_Subjects = [\<lparr> s_Kind = ServiceAccount, s_Name = ''sa1'', s_Namespaces = [''team-b''],
                           s_NameSpaceSelector = noSelector, s_NamespaceMatchExpression = [] \<rparr>],
           b_RoleBindings = [],
           b_ClusterRoleBindings = [\<lparr> crb_ClusterRole = ''view'' \<rparr>] \<rparr>],
        spec_StartTime = ZeroTime, spec_EndTime = At 5000, spec_CreateSA = True \<rparr>,
     r_Status = \<lparr> st_RoleBindings = [], st_ClusterRoleBindings = [] \<rparr> \<rparr>"

definition freshWorld :: World where
  "freshWorld = emptyWorld\<lparr> w_rules := [freshRule] \<rparr>"







section \<open>Properties of the parser\<close>

lemma retrieveNamespaces_ok:
  "retrieveNamespaces env w ls = (Inr ns, w') \<Longrightarrow>
     ns = selectedNamespaces env (w_namespaces w) ls \<and> w_namespaces w' = w_namespaces w"
  by (auto simp: retrieveNamespaces_def selectedNamespaces_def List_namespaces_def api_call_def
      split: if_splits sum.splits option.splits prod.splits)

lemma retrieveNamespaces_frame:
  "retrieveNamespaces env w ls = (r, w') \<Longrightarrow> w' = w \<or> w' = w\<lparr> w_calls := Suc (w_calls w) \<rparr>"
  by (auto simp: retrieveNamespaces_def List_namespaces_def api_call_def
      split: if_splits sum.splits option.splits prod.splits)

lemma parseSubjects_ok:
  "parseSubjects env w p ss = (None, p', w') \<Longrightarrow>
     p' = p\<lparr> p_Subjects := p_Subjects p @ concat (map (expandSubject env (w_namespaces w)) ss) \<rparr>
     \<and> w_namespaces w' = w_namespaces w"
proof (induction ss arbitrary: w p)
  case Nil
  then show ?case by simp
next
  case (Cons s ss)
  show ?case
  proof (cases "s_Kind s = ServiceAccount")
    case True
    then have k: "s_Kind s \<noteq> User" "s_Kind s \<noteq> Group"
      by (simp_all add: User_def Group_def ServiceAccount_def)
    from Cons.prems True k obtain ns w1 where
      r: "retrieveNamespaces env w (s_NameSpaceSelector s) = (Inr ns, w1)" and
      rest: "parseSubjects env w1
               (p\<lparr> p_Subjects := p_Subjects p @ map (saSubject (s_Name s)) (ns @ s_Namespaces s) \<rparr>) ss
             = (None, p', w')"
      by (auto split: prod.splits sum.splits)
    from retrieveNamespaces_ok [OF r] have
      ns: "ns = selectedNamespaces env (w_namespaces w) (s_NameSpaceSelector s)" and
      w1: "w_namespaces w1 = w_namespaces w" by simp_all
    from Cons.IH [OF rest] True k ns w1 show ?thesis
      by (simp add: expandSubject_def)
  next
    case notSA: False
    show ?thesis
    proof (cases "s_Kind s = User")
      case True
      with Cons.prems have
        "parseSubjects env w (p\<lparr> p_Subjects := p_Subjects p @ [userSubject (s_Name s)] \<rparr>) ss = (None, p', w')"
        by simp
      from Cons.IH [OF this] True show ?thesis
        by (simp add: expandSubject_def)
    next
      case notUser: False
      show ?thesis
      proof (cases "s_Kind s = Group")
        case True
        with Cons.prems notUser have
          "parseSubjects env w (p\<lparr> p_Subjects := p_Subjects p @ [groupSubject (s_Name s)] \<rparr>) ss = (None, p', w')"
          by simp
        from Cons.IH [OF this] True notUser show ?thesis
          by (simp add: expandSubject_def)
      next
        case False
        with Cons.prems notUser notSA have "parseSubjects env w p ss = (None, p', w')"
          by simp
        from Cons.IH [OF this] False notUser notSA show ?thesis
          by (simp add: expandSubject_def)
      qed
    qed
  qed
qed

lemma parseRBs_ok:
  "parseRBs env w p rn bn RBs L ownerRef = (None, p', w') \<Longrightarrow>
     p' = p\<lparr> p_RoleBindings := p_RoleBindings p @
                expandRBs env (w_namespaces w) rn bn L ownerRef (p_Subjects p) RBs \<rparr>
     \<and> w_namespaces w' = w_namespaces w"
proof (induction RBs arbitrary: w p)
  case Nil
  then show ?case by (simp add: expandRBs_def)
next
  case (Cons rb RBs)
  from Cons.prems obtain ns w1 where
    r: "retrieveNamespaces env w (rb_NameSpaceSelector rb) = (Inr ns, w1)" and
    rest: "parseRBs env w1
             (p\<lparr> p_RoleBindings := p_RoleBindings p @
                  expandRB env rn bn L ownerRef (p_Subjects p) rb (ns @ rb_Namespaces rb) \<rparr>)
             rn bn RBs L ownerRef = (None, p', w')"
    by (auto split: prod.splits sum.splits)
  from retrieveNamespaces_ok [OF r] have
    ns: "ns = selectedNamespaces env (w_namespaces w) (rb_NameSpaceSelector rb)" and
    w1: "w_namespaces w1 = w_namespaces w" by simp_all
  from Cons.IH [OF rest] ns w1 show ?case
    by (simp add: expandRBs_def)
qed

lemma Parse_ok:
  assumes "Parse env w newParser b L ownerRef rn = (None, p, w')"
  shows "p = expansion env (w_namespaces w) b L ownerRef rn"
proof -
  from assms obtain p1 w1 where
    s: "parseSubjects env w newParser (b_Subjects b) = (None, p1, w1)" and
    r: "parseRBs env w1 (parseCRBs env p1 rn (b_Name b) (b_ClusterRoleBindings b) L ownerRef)
          rn (b_Name b) (b_RoleBindings b) L ownerRef = (None, p, w')"
    by (auto simp: Parse_def split: prod.splits option.splits)
  from parseSubjects_ok [OF s] have
    p1: "p1 = newParser\<lparr> p_Subjects := concat (map (expandSubject env (w_namespaces w)) (b_Subjects b)) \<rparr>"
    and w1: "w_namespaces w1 = w_namespaces w"
    by (simp_all add: newParser_def)
  from parseRBs_ok [OF r] p1 w1 show ?thesis
    by (simp add: expansion_def parseCRBs_def newParser_def Let_def)
qed

lemma length_expandRB: "length (expandRB env rn bn L ownerRef subjects rb ns) = length ns * rolesOf rb"
  by (simp add: expandRB_def rolesOf_def)

lemma subjects_expandRB: "x \<in> set (expandRB env rn bn L ownerRef subjects rb ns) \<Longrightarrow> krb_Subjects x = subjects"
  by (auto simp: expandRB_def mkRB_def split: if_splits)

lemma Parse_collapse:
  "fst (Parse env w p b L ownerRef rn) = None \<Longrightarrow>
   Parse env w p b L ownerRef rn =
     (None, fst (snd (Parse env w p b L ownerRef rn)), snd (snd (Parse env w p b L ownerRef rn)))"
  by (metis prod.collapse)

text \<open>
  Claim C5. When \<^verbatim>\<open>Parse\<close> succeeds on a binding, the RoleBindings it emits are, for
  each RoleBinding declaration in order and for each entry of its resolved
  namespace list, one RoleBinding for the \<^verbatim>\<open>clusterRole\<close> field if it is set and one for
  the \<^verbatim>\<open>role\<close> field if it is set (\<open>expandRB\<close>), so a declaration with both set yields
  two per namespace; there is one ClusterRoleBinding per ClusterRoleBinding
  declaration; and every emitted RoleBinding and ClusterRoleBinding carries the
  whole expanded subject list of the binding.
\<close>

theorem Parse_expands_role_bindings:
  assumes "Parse env w newParser b L ownerRef rn = (None, p, w')"
  shows "p_RoleBindings p =
           concat (map (\<lambda>rb. expandRB env rn (b_Name b) L ownerRef (p_Subjects p) rb
                     (selectedNamespaces env (w_namespaces w) (rb_NameSpaceSelector rb) @ rb_Namespaces rb))
                   (b_RoleBindings b))
         \<and> length (p_RoleBindings p) =
             (\<Sum>rb\<leftarrow>b_RoleBindings b.
                length (selectedNamespaces env (w_namespaces w) (rb_NameSpaceSelector rb) @ rb_Namespaces rb)
                  * rolesOf rb)
         \<and> p_Subjects p = concat (map (expandSubject env (w_namespaces w)) (b_Subjects b))
         \<and> (\<forall>x \<in> set (p_RoleBindings p). krb_Subjects x = p_Subjects p)
         \<and> length (p_ClusterRoleBindings p) = length (b_ClusterRoleBindings b)
         \<and> (\<forall>y \<in> set (p_ClusterRoleBindings p). kcrb_Subjects y = p_Subjects p)"
proof -
  from Parse_ok [OF assms] have p: "p = expansion env (w_namespaces w) b L ownerRef rn" .
  have rbs: "p_RoleBindings p =
           concat (map (\<lambda>rb. expandRB env rn (b_Name b) L ownerRef (p_Subjects p) rb
                     (selectedNamespaces env (w_namespaces w) (rb_NameSpaceSelector rb) @ rb_Namespaces rb))
                   (b_RoleBindings b))"
    by (simp add: p expansion_def expandRBs_def Let_def)
  have len: "length (p_RoleBindings p) =
             (\<Sum>rb\<leftarrow>b_RoleBindings b.
                length (selectedNamespaces env (w_namespaces w) (rb_NameSpaceSelector rb) @ rb_Namespaces rb)
                  * rolesOf rb)"
    by (subst rbs) (simp add: length_concat comp_def length_expandRB del: length_append)
  have subj: "p_Subjects p = concat (map (expandSubject env (w_namespaces w)) (b_Subjects b))"
    by (simp add: p expansion_def Let_def)
  have rbsub: "\<forall>x \<in> set (p_RoleBindings p). krb_Subjects x = p_Subjects p"
    by (subst rbs) (auto dest: subjects_expandRB)
  have crbs: "p_ClusterRoleBindings p =
      map (mkCRB env rn (b_Name b) L ownerRef (p_Subjects p)) (b_ClusterRoleBindings b)"
    by (simp add: p expansion_def Let_def)
  have crbsub: "\<forall>y \<in> set (p_ClusterRoleBindings p). kcrb_Subjects y = p_Subjects p"
    by (subst crbs) (auto simp: mkCRB_def)
  have crblen: "length (p_ClusterRoleBindings p) = length (b_ClusterRoleBindings b)"
    by (simp add: crbs)
  from rbs len subj rbsub crblen crbsub show ?thesis by blast
qed

theorem Parse_expands_role_bindings_witness:
  "fst (Parse sampleEnv devWorld newParser devBinding [(''l'', ''r'')] [] ''r'') = None
   \<and> length (p_RoleBindings (fst (snd (Parse sampleEnv devWorld newParser devBinding [(''l'', ''r'')] [] ''r'')))) = 6
   \<and> map sub_Namespace (p_Subjects (fst (snd (Parse sampleEnv devWorld newParser devBinding [(''l'', ''r'')] [] ''r''))))
       = [''ns-1'', ''ns-2'']"
proof -
  have h: "fst (Parse sampleEnv devWorld newParser devBinding [(''l'', ''r'')] [] ''r'') = None"
    by code_simp
  have s: "(\<Sum>rb\<leftarrow>b_RoleBindings devBinding.
                length (selectedNamespaces sampleEnv (w_namespaces devWorld) (rb_NameSpaceSelector rb) @ rb_Namespaces rb)
                  * rolesOf rb) = 6"
    by code_simp
  have e: "map sub_Namespace (concat (map (expandSubject sampleEnv (w_namespaces devWorld)) (b_Subjects devBinding))) = [''ns-1'', ''ns-2'']"
    by code_simp
  note t = Parse_expands_role_bindings [OF Parse_collapse [OF h]]
  have len: "length (p_RoleBindings (fst (snd (Parse sampleEnv devWorld newParser devBinding [(''l'', ''r'')] [] ''r'')))) = 6"
    by (rule trans [OF t [THEN conjunct2, THEN conjunct1] s])
  have sub: "map sub_Namespace (p_Subjects (fst (snd (Parse sampleEnv devWorld newParser devBinding [(''l'', ''r'')] [] ''r''))))
       = [''ns-1'', ''ns-2'']"
    by (rule trans [OF arg_cong [where f = "map sub_Namespace", OF t [THEN conjunct2, THEN conjunct2, THEN conjunct1]] e])
  from h len sub show ?thesis by (intro conjI)
qed

text \<open>
  Claim C6, as stated, fails: nothing deduplicates the namespace list. A namespace that
  is both listed explicitly and matched by the selector is expanded twice, for a
  ServiceAccount subject and for a RoleBinding declaration alike.
\<close>

theorem namespaces_not_deduplicated_counterexample:
  "map sub_Namespace (p_Subjects (fst (snd (Parse sampleEnv devWorld newParser overlapBinding [] [] ''r''))))
     = [''ns-1'', ''ns-2'', ''ns-1'']
   \<and> map (om_Namespace \<circ> krb_Meta)
         (p_RoleBindings (fst (snd (Parse sampleEnv devWorld newParser overlapBinding [] [] ''r''))))
     = [''ns-1'', ''ns-2'', ''ns-1'']"
  by code_simp

lemma namespaces_expandRB:
  "map (om_Namespace \<circ> krb_Meta) (expandRB env rn bn L ownerRef subjects rb ns) = concat (replicate (rolesOf rb) ns)"
  by (simp add: expandRB_def rolesOf_def mkRB_def emptyMeta_def comp_def)

lemma sa_namespaces_expandSubject:
  "sub_Namespace ` {x \<in> set (expandSubject env nss s). sub_Kind x = ServiceAccount} =
     (if s_Kind s = ServiceAccount then set (selectedNamespaces env nss (s_NameSpaceSelector s)) \<union> set (s_Namespaces s) else {})"
proof (cases "s_Kind s = ServiceAccount")
  case True
  then have e: "expandSubject env nss s =
      map (saSubject (s_Name s)) (selectedNamespaces env nss (s_NameSpaceSelector s) @ s_Namespaces s)"
    by (simp add: expandSubject_def User_def Group_def ServiceAccount_def)
  have all: "{x \<in> set (expandSubject env nss s). sub_Kind x = ServiceAccount} = set (expandSubject env nss s)"
    by (auto simp: e saSubject_def)
  have "sub_Namespace ` set (expandSubject env nss s) =
      set (map sub_Namespace (expandSubject env nss s))"
    by simp
  also have "map sub_Namespace (expandSubject env nss s) =
      selectedNamespaces env nss (s_NameSpaceSelector s) @ s_Namespaces s"
    by (simp add: e comp_def saSubject_def)
  finally show ?thesis using True all by simp
next
  case False
  then show ?thesis
    by (auto simp: expandSubject_def userSubject_def groupSubject_def User_def Group_def ServiceAccount_def)
qed

text \<open>
  Claim C6, amended. When \<^verbatim>\<open>Parse\<close> succeeds, the namespace list used for a ServiceAccount
  subject or a RoleBinding declaration is the list of names the selector resolves
  to followed by the explicit list, with every entry kept: the subjects are the
  concatenation of \<open>expandSubject\<close> over the declared subjects, the set of namespaces of
  the ServiceAccount subjects is exactly the union of the selected and the explicit
  namespaces, and the namespaces of the emitted RoleBindings are, per declaration,
  that list once for each of \<^verbatim>\<open>role\<close> and \<^verbatim>\<open>clusterRole\<close> that is set.
\<close>

theorem Parse_namespaces_selected_then_explicit:
  assumes "Parse env w newParser b L ownerRef rn = (None, p, w')"
  shows "p_Subjects p = concat (map (expandSubject env (w_namespaces w)) (b_Subjects b))
     \<and> sub_Namespace ` {x \<in> set (p_Subjects p). sub_Kind x = ServiceAccount} =
         (\<Union>s \<in> {s \<in> set (b_Subjects b). s_Kind s = ServiceAccount}.
            set (selectedNamespaces env (w_namespaces w) (s_NameSpaceSelector s)) \<union> set (s_Namespaces s))
     \<and> map (om_Namespace \<circ> krb_Meta) (p_RoleBindings p) =
         concat (map (\<lambda>rb. concat (replicate (rolesOf rb)
                   (selectedNamespaces env (w_namespaces w) (rb_NameSpaceSelector rb) @ rb_Namespaces rb)))
                 (b_RoleBindings b))"
proof -
  from Parse_ok [OF assms] have p: "p = expansion env (w_namespaces w) b L ownerRef rn" .
  have subj: "p_Subjects p = concat (map (expandSubject env (w_namespaces w)) (b_Subjects b))"
    by (simp add: p expansion_def Let_def)
  have "{x \<in> set (p_Subjects p). sub_Kind x = ServiceAccount} =
        (\<Union>s \<in> set (b_Subjects b). {x \<in> set (expandSubject env (w_namespaces w) s). sub_Kind x = ServiceAccount})"
    by (auto simp: subj)
  then have "sub_Namespace ` {x \<in> set (p_Subjects p). sub_Kind x = ServiceAccount} =
        (\<Union>s \<in> set (b_Subjects b). sub_Namespace ` {x \<in> set (expandSubject env (w_namespaces w) s). sub_Kind x = ServiceAccount})"
    by (simp add: image_UN)
  also have "\<dots> = (\<Union>s \<in> {s \<in> set (b_Subjects b). s_Kind s = ServiceAccount}.
            set (selectedNamespaces env (w_namespaces w) (s_NameSpaceSelector s)) \<union> set (s_Namespaces s))"
    by (auto simp: sa_namespaces_expandSubject split: if_splits)
  finally have sans: "sub_Namespace ` {x \<in> set (p_Subjects p). sub_Kind x = ServiceAccount} =
         (\<Union>s \<in> {s \<in> set (b_Subjects b). s_Kind s = ServiceAccount}.
            set (selectedNamespaces env (w_namespaces w) (s_NameSpaceSelector s)) \<union> set (s_Namespaces s))" .
  have rbs: "map (om_Namespace \<circ> krb_Meta) (p_RoleBindings p) =
         concat (map (\<lambda>rb. concat (replicate (rolesOf rb)
                   (selectedNamespaces env (w_namespaces w) (rb_NameSpaceSelector rb) @ rb_Namespaces rb)))
                 (b_RoleBindings b))"
    by (simp add: p expansion_def expandRBs_def Let_def map_concat comp_def namespaces_expandRB [unfolded comp_def])
  from subj sans rbs show ?thesis by (intro conjI)
qed

theorem Parse_namespaces_selected_then_explicit_witness:
  "fst (Parse sampleEnv devWorld newParser overlapBinding [] [] ''r'') = None
   \<and> map (om_Namespace \<circ> krb_Meta) (p_RoleBindings (fst (snd (Parse sampleEnv devWorld newParser overlapBinding [] [] ''r''))))
      = [''ns-1'', ''ns-2'', ''ns-1'']"
proof -
  have h: "fst (Parse sampleEnv devWorld newParser overlapBinding [] [] ''r'') = None"
    by code_simp
  have e: "concat (map (\<lambda>rb. concat (replicate (rolesOf rb)
                   (selectedNamespaces sampleEnv (w_namespaces devWorld) (rb_NameSpaceSelector rb) @ rb_Namespaces rb)))
                 (b_RoleBindings overlapBinding)) = [''ns-1'', ''ns-2'', ''ns-1'']"
    by code_simp
  note t = Parse_namespaces_selected_then_explicit [OF Parse_collapse [OF h]]
  from h trans [OF t [THEN conjunct2, THEN conjunct2] e] show ?thesis by (intro conjI)
qed








lemma collision_for_any_generator:
  assumes "rb_Role rb \<noteq> []" "rb_ClusterRole rb = rb_Role rb" "n \<in> set ns"
  shows "mkRB env rn bn L ownerRef subjects CRB (rb_Role rb) n \<in> set (expandRB env rn bn L ownerRef subjects rb ns)
     \<and> mkRB env rn bn L ownerRef subjects RB (rb_Role rb) n \<in> set (expandRB env rn bn L ownerRef subjects rb ns)
     \<and> mkRB env rn bn L ownerRef subjects CRB (rb_Role rb) n \<noteq> mkRB env rn bn L ownerRef subjects RB (rb_Role rb) n
     \<and> om_Name (krb_Meta (mkRB env rn bn L ownerRef subjects CRB (rb_Role rb) n)) =
         om_Name (krb_Meta (mkRB env rn bn L ownerRef subjects RB (rb_Role rb) n))
     \<and> om_Namespace (krb_Meta (mkRB env rn bn L ownerRef subjects CRB (rb_Role rb) n)) =
         om_Namespace (krb_Meta (mkRB env rn bn L ownerRef subjects RB (rb_Role rb) n))"
  using assms by (auto simp: expandRB_def mkRB_def emptyMeta_def CRB_def RB_def)







section \<open>Properties of the reconciler: the lifecycle\<close>

text \<open>
  The label value \<^verbatim>\<open>Reconcile\<close> puts on generated objects is never the value the
  deletion sweep selects on: the latter is longer by a dash and the namespace.
\<close>

lemma ownership_label_is_not_sweep_label: "ownershipLabels env rule \<noteq> sweepLabels env rule"
  by (simp add: ownershipLabels_def sweepLabels_def)

text \<open>So the selector of the sweep matches no object that carries the ownership labels.\<close>

lemma sweep_never_selects_generated:
  "\<not> sel_Matches (SelectorFromSet (sweepLabels env rule)) (ownershipLabels env rule)"
  by (simp add: sel_Matches_def SelectorFromSet_def sweepLabels_def ownershipLabels_def)

text \<open>
  Claim C1 does not hold of the code. The sample rule is reconciled once, deleted
  through the API and reconciled again. The second pass takes the deletion path
  with the finalizer present, succeeds, removes the finalizer, and the rule is
  gone; but the sweep selected on the value \<^verbatim>\<open>r-\<close> while the objects carry the value
  \<^verbatim>\<open>r\<close>, so all six RoleBindings, the ClusterRoleBinding and both ServiceAccounts
  remain, still carrying the ownership label.
\<close>

theorem deletion_sweep_misses_generated_objects:
  "map (\<lambda>x. (om_Finalizers (r_Meta x), om_DeletionTimestamp (r_Meta x) \<noteq> None)) (w_rules deletingWorld)
     = [([RBACRuleFinalizer], True)]
   \<and> fst (Reconcile sampleEnv deletingWorld [] ''r'') = Returns (emptyResult, None)
   \<and> w_rules (snd (Reconcile sampleEnv deletingWorld [] ''r'')) = []
   \<and> map (\<lambda>x. (om_Namespace (krb_Meta x), om_Name (krb_Meta x), om_Labels (krb_Meta x)))
        (w_roleBindings (snd (Reconcile sampleEnv deletingWorld [] ''r'')))
      = [(''ns-1'', ''r-dev-Role-view'', ownershipLabels sampleEnv sampleRule),
         (''ns-2'', ''r-dev-Role-view'', ownershipLabels sampleEnv sampleRule),
         (''team-a'', ''r-dev-Role-view'', ownershipLabels sampleEnv sampleRule),
         (''ns-1'', ''r-dev-Role-edit'', ownershipLabels sampleEnv sampleRule),
         (''ns-2'', ''r-dev-Role-edit'', ownershipLabels sampleEnv sampleRule),
         (''team-a'', ''r-dev-Role-edit'', ownershipLabels sampleEnv sampleRule)]
   \<and> map (\<lambda>x. (om_Name (kcrb_Meta x), om_Labels (kcrb_Meta x)))
        (w_clusterRoleBindings (snd (Reconcile sampleEnv deletingWorld [] ''r'')))
      = [(''r-dev-ClusterRole-audit'', ownershipLabels sampleEnv sampleRule)]
   \<and> map (\<lambda>x. (om_Namespace (ksa_Meta x), om_Name (ksa_Meta x), om_Labels (ksa_Meta x)))
        (w_serviceAccounts (snd (Reconcile sampleEnv deletingWorld [] ''r'')))
      = [(''ns-1'', ''sa1'', ownershipLabels sampleEnv sampleRule),
         (''ns-2'', ''sa1'', ownershipLabels sampleEnv sampleRule)]"
  by code_simp

text \<open>
  Removing the range from \<open>i\<close> to \<open>i\<close> removes nothing: when the entry is found the
  status list stays as it is, and when it is not found the call panics.
\<close>

lemma slices_Index_range: "slices_Index s v = -1 \<or> (0 \<le> slices_Index s v \<and> slices_Index s v < int (length s))"
  by (induction s) (auto simp: Let_def)

lemma slices_Index_found: "slices_Index s v \<noteq> -1 \<Longrightarrow> s ! nat (slices_Index s v) = v"
proof (induction s)
  case Nil
  then show ?case by simp
next
  case (Cons x s)
  show ?case
  proof (cases "x = v")
    case True
    then show ?thesis by simp
  next
    case False
    with Cons.prems have n: "slices_Index s v \<noteq> -1"
      by (auto simp: Let_def split: if_splits)
    with slices_Index_range [of s v] have r: "0 \<le> slices_Index s v" by auto
    from False n have "slices_Index (x # s) v = slices_Index s v + 1"
      by (simp add: Let_def)
    with Cons.IH [OF n] r show ?thesis
      by (simp add: nat_add_distrib)
  qed
qed

lemma slices_Delete_empty_range:
  "0 \<le> i \<Longrightarrow> i \<le> int (length s) \<Longrightarrow> slices_Delete s i i = Some s"
  by (simp add: slices_Delete_def)

lemma slices_Delete_found_is_noop:
  "slices_Index s v \<noteq> -1 \<Longrightarrow> slices_Delete s (slices_Index s v) (slices_Index s v) = Some s"
  using slices_Index_range [of s v] by (auto simp: slices_Delete_def)

lemma slices_Delete_not_found_panics:
  "slices_Index s v = -1 \<Longrightarrow> slices_Delete s (slices_Index s v) (slices_Index s v) = None"
  by (simp add: slices_Delete_def)

text \<open>
  Claim C2 does not hold of the code. After the ClusterRoleBinding \<^verbatim>\<open>crb1\<close> is deleted
  from the cluster, \<^verbatim>\<open>slices.Index\<close> finds its entry at index 0 and
  \<^verbatim>\<open>slices.Delete(s, 0, 0)\<close> removes the empty range: the status still lists \<^verbatim>\<open>crb1\<close>.
  For a RoleBinding the status entry is \<^verbatim>\<open>namespace/name\<close> but the search is for the
  bare name, so the index is \<open>-1\<close> and \<^verbatim>\<open>slices.Delete(s, -1, -1)\<close> panics, after the
  RoleBinding was deleted.
\<close>

theorem status_entry_not_removed_on_delete:
  "fst (deleteBindings sampleEnv sweptWorld sweptRule (SelectorFromSet (sweepLabels sampleEnv sweptRule)))
     = Returns None
   \<and> w_clusterRoleBindings (snd (snd (deleteBindings sampleEnv sweptWorld sweptRule
         (SelectorFromSet (sweepLabels sampleEnv sweptRule))))) = []
   \<and> st_ClusterRoleBindings (r_Status (fst (snd (deleteBindings sampleEnv sweptWorld sweptRule
         (SelectorFromSet (sweepLabels sampleEnv sweptRule)))))) = [''crb1'']
   \<and> slices_Index [''crb1''] ''crb1'' = 0
   \<and> slices_Delete [''crb1''] 0 0 = Some [''crb1'']
   \<and> fst (deleteBindings sampleEnv sweptWorld2 sweptRule2 (SelectorFromSet (sweepLabels sampleEnv sweptRule2)))
     = Panics
   \<and> w_roleBindings (snd (snd (deleteBindings sampleEnv sweptWorld2 sweptRule2
         (SelectorFromSet (sweepLabels sampleEnv sweptRule2))))) = []
   \<and> slices_Index [''team-a/rb1''] ''rb1'' = - 1
   \<and> slices_Delete [''team-a/rb1''] (- 1) (- 1) = None
   \<and> fst (Reconcile sampleEnv sweptWorld2 ''ops'' ''r'') = Panics"
  by code_simp

text \<open>
  The three cases of the end time: unset (the rule is deleted as soon as the clock
  is past the zero instant), set and ahead (requeue), set and passed (the rule is
  deleted).
\<close>

lemma reconcileEnd_zero_end_time:
  assumes "spec_EndTime (r_Spec rule) = ZeroTime" and "0 < clock env (w_ticks w)"
  shows "reconcileEnd env w rule =
     (case Delete_rule env (w\<lparr> w_ticks := Suc (w_ticks w) \<rparr>) rule of
        (Some e, w3) \<Rightarrow> ((emptyResult, None), log_Error ''error deleting resource'' w3)
      | (None, w3) \<Rightarrow> ((emptyResult, None), w3))"
  using assms by (simp add: reconcileEnd_def time_Now_def time_Before_def Let_def)

lemma reconcileEnd_future_end_time:
  assumes "spec_EndTime (r_Spec rule) \<noteq> ZeroTime"
    and "clock env (w_ticks w) < instant (spec_EndTime (r_Spec rule))"
  shows "reconcileEnd env w rule =
     ((requeueAfter (time_Sub (spec_EndTime (r_Spec rule)) (At (clock env (Suc (w_ticks w))))), None),
      log_Info ''Rule will be scheduled for deletion'' (w\<lparr> w_ticks := Suc (Suc (w_ticks w)) \<rparr>))"
  using assms by (simp add: reconcileEnd_def time_Now_def time_After_def Let_def)

lemma reconcileEnd_past_end_time:
  assumes "spec_EndTime (r_Spec rule) \<noteq> ZeroTime"
    and "instant (spec_EndTime (r_Spec rule)) \<le> clock env (w_ticks w)"
    and "instant (spec_EndTime (r_Spec rule)) < clock env (Suc (w_ticks w))"
  shows "reconcileEnd env w rule =
     (case Delete_rule env (w\<lparr> w_ticks := Suc (Suc (w_ticks w)) \<rparr>) rule of
        (Some e, w3) \<Rightarrow> ((emptyResult, None), log_Error ''error deleting resource'' w3)
      | (None, w3) \<Rightarrow> ((emptyResult, None), w3))"
  using assms by (simp add: reconcileEnd_def time_Now_def time_After_def time_Before_def Let_def)

text \<open>
  Claim C3 does not hold of the code. For a rule whose end time is the zero time,
  the first test of the end time is false, and the second,
  \<^verbatim>\<open>end.Before(time.Now())\<close>, is true since the zero time lies before every reading of
  the clock: the rule is deleted in its first reconciliation (marked, as it carries
  the finalizer), and the next pass finalizes it.
\<close>

theorem rule_without_end_time_is_deleted:
  "fst (Reconcile sampleEnv noEndWorld [] ''r'') = Returns (emptyResult, None)
   \<and> map (\<lambda>x. (om_Name (r_Meta x), om_Finalizers (r_Meta x), om_DeletionTimestamp (r_Meta x)))
        (w_rules (snd (Reconcile sampleEnv noEndWorld [] ''r'')))
      = [(''r'', [RBACRuleFinalizer], Some (At 1001))]
   \<and> w_rules (snd (Reconcile sampleEnv (snd (Reconcile sampleEnv noEndWorld [] ''r'')) [] ''r'')) = []"
  by code_simp


lemma spec_AddFinalizer [simp]: "r_Spec (AddFinalizer rule f) = r_Spec rule"
  by (simp add: AddFinalizer_def)

lemma deletion_AddFinalizer [simp]:
  "om_DeletionTimestamp (r_Meta (AddFinalizer rule f)) = om_DeletionTimestamp (r_Meta rule)"
  by (simp add: AddFinalizer_def)





section \<open>Properties of the reconciler: what a pass may add\<close>

lemma adds_only_refl: "adds_only L w w"
  by (simp add: adds_only_def)

lemma adds_only_trans: "adds_only L w w1 \<Longrightarrow> adds_only L w1 w2 \<Longrightarrow> adds_only L w w2"
  unfolding adds_only_def by blast

lemma adds_only_log_Error: "adds_only L w w' \<Longrightarrow> adds_only L w (log_Error m w')"
  by (auto simp: adds_only_def log_Error_def)

lemma adds_only_log_Info: "adds_only L w w' \<Longrightarrow> adds_only L w (log_Info m w')"
  by (auto simp: adds_only_def log_Info_def)

lemma set_store_put: "set (store_put meta xs x) \<subseteq> insert x (set xs)"
  by (auto simp: store_put_def)

lemma set_store_remove: "set (store_remove meta xs m) \<subseteq> set xs"
  by (auto simp: store_remove_def)

subsection \<open>The client calls\<close>

lemma adds_only_Get_namespace: "Get_namespace env w n = (r, w') \<Longrightarrow> adds_only L w w'"
  by (auto simp: Get_namespace_def api_call_def adds_only_def split: option.splits)

lemma adds_only_Create_namespace:
  "Create_namespace env w x = (r, w') \<Longrightarrow> om_Labels (kns_Meta x) = [] \<Longrightarrow> adds_only L w w'"
  by (auto simp: Create_namespace_def api_call_def adds_only_def split: option.splits if_splits)

lemma adds_only_List_namespaces: "List_namespaces env w sel = (r, w') \<Longrightarrow> adds_only L w w'"
  by (auto simp: List_namespaces_def api_call_def adds_only_def split: option.splits)

lemma adds_only_Create_serviceAccount:
  "Create_serviceAccount env w x = (r, w') \<Longrightarrow> om_Labels (ksa_Meta x) = L \<Longrightarrow> adds_only L w w'"
  by (auto simp: Create_serviceAccount_def api_call_def adds_only_def split: option.splits if_splits)

lemma adds_only_Update_serviceAccount:
  "Update_serviceAccount env w x = (r, w') \<Longrightarrow> om_Labels (ksa_Meta x) = L \<Longrightarrow> adds_only L w w'"
  using set_store_put [of ksa_Meta "w_serviceAccounts w" x]
  by (auto simp: Update_serviceAccount_def api_call_def adds_only_def split: option.splits if_splits)

lemma adds_only_List_serviceAccounts: "List_serviceAccounts env w sel = (r, w') \<Longrightarrow> adds_only L w w'"
  by (auto simp: List_serviceAccounts_def api_call_def adds_only_def split: option.splits)

lemma adds_only_Delete_serviceAccount: "Delete_serviceAccount env w x = (r, w') \<Longrightarrow> adds_only L w w'"
  using set_store_remove [of ksa_Meta "w_serviceAccounts w" "ksa_Meta x"]
  by (auto simp: Delete_serviceAccount_def api_call_def adds_only_def split: option.splits if_splits)

lemma adds_only_Create_roleBinding:
  "Create_roleBinding env w x = (r, w') \<Longrightarrow> om_Labels (krb_Meta x) = L \<Longrightarrow> adds_only L w w'"
  by (auto simp: Create_roleBinding_def api_call_def adds_only_def split: option.splits if_splits)

lemma adds_only_Update_roleBinding:
  "Update_roleBinding env w x = (r, w') \<Longrightarrow> om_Labels (krb_Meta x) = L \<Longrightarrow> adds_only L w w'"
  using set_store_put [of krb_Meta "w_roleBindings w" x]
  by (auto simp: Update_roleBinding_def api_call_def adds_only_def split: option.splits if_splits)

lemma adds_only_List_roleBindings: "List_roleBindings env w sel = (r, w') \<Longrightarrow> adds_only L w w'"
  by (auto simp: List_roleBindings_def api_call_def adds_only_def split: option.splits)

lemma adds_only_Delete_roleBinding: "Delete_roleBinding env w x = (r, w') \<Longrightarrow> adds_only L w w'"
  using set_store_remove [of krb_Meta "w_roleBindings w" "krb_Meta x"]
  by (auto simp: Delete_roleBinding_def api_call_def adds_only_def split: option.splits if_splits)

lemma adds_only_Create_clusterRoleBinding:
  "Create_clusterRoleBinding env w x = (r, w') \<Longrightarrow> om_Labels (kcrb_Meta x) = L \<Longrightarrow> adds_only L w w'"
  by (auto simp: Create_clusterRoleBinding_def api_call_def adds_only_def split: option.splits if_splits)

lemma adds_only_Update_clusterRoleBinding:
  "Update_clusterRoleBinding env w x = (r, w') \<Longrightarrow> om_Labels (kcrb_Meta x) = L \<Longrightarrow> adds_only L w w'"
  using set_store_put [of kcrb_Meta "w_clusterRoleBindings w" x]
  by (auto simp: Update_clusterRoleBinding_def api_call_def adds_only_def split: option.splits if_splits)

lemma adds_only_List_clusterRoleBindings: "List_clusterRoleBindings env w sel = (r, w') \<Longrightarrow> adds_only L w w'"
  by (auto simp: List_clusterRoleBindings_def api_call_def adds_only_def split: option.splits)

lemma adds_only_Delete_clusterRoleBinding: "Delete_clusterRoleBinding env w x = (r, w') \<Longrightarrow> adds_only L w w'"
  using set_store_remove [of kcrb_Meta "w_clusterRoleBindings w" "kcrb_Meta x"]
  by (auto simp: Delete_clusterRoleBinding_def api_call_def adds_only_def split: option.splits if_splits)

lemma adds_only_Get_rule: "Get_rule env w ns n = (r, w') \<Longrightarrow> adds_only L w w'"
  by (auto simp: Get_rule_def api_call_def adds_only_def split: option.splits)

lemma adds_only_Update_rule: "Update_rule env w x = (r, w') \<Longrightarrow> adds_only L w w'"
  by (auto simp: Update_rule_def api_call_def adds_only_def Let_def split: option.splits if_splits)

lemma adds_only_StatusUpdate_rule: "StatusUpdate_rule env w x = (r, w') \<Longrightarrow> adds_only L w w'"
  by (auto simp: StatusUpdate_rule_def api_call_def adds_only_def Let_def split: option.splits)

lemma adds_only_Delete_rule: "Delete_rule env w x = (r, w') \<Longrightarrow> adds_only L w w'"
  by (auto simp: Delete_rule_def api_call_def adds_only_def split: option.splits if_splits)

subsection \<open>The parser only reads\<close>

lemma adds_only_retrieveNamespaces: "retrieveNamespaces env w ls = (r, w') \<Longrightarrow> adds_only L w w'"
  by (auto simp: retrieveNamespaces_def adds_only_refl
      split: if_splits sum.splits prod.splits dest: adds_only_List_namespaces)

lemma parseSubjects_frame:
  "parseSubjects env w p ss = (e, p', w') \<Longrightarrow>
     adds_only L w w' \<and> p_RoleBindings p' = p_RoleBindings p
     \<and> p_ClusterRoleBindings p' = p_ClusterRoleBindings p"
proof (induction ss arbitrary: w p)
  case Nil
  then show ?case by (simp add: adds_only_refl)
next
  case (Cons s ss)
  show ?case
  proof (cases "s_Kind s = User \<or> s_Kind s = Group \<or> s_Kind s \<noteq> ServiceAccount")
    case True
    with Cons.prems obtain p1 where
      "parseSubjects env w p1 ss = (e, p', w')"
      "p_RoleBindings p1 = p_RoleBindings p" "p_ClusterRoleBindings p1 = p_ClusterRoleBindings p"
      by (auto split: if_splits)
    with Cons.IH [of w p1] show ?thesis by simp
  next
    case False
    then have sa: "s_Kind s \<noteq> User" "s_Kind s \<noteq> Group" "s_Kind s = ServiceAccount" by auto
    obtain r w1 where r: "retrieveNamespaces env w (s_NameSpaceSelector s) = (r, w1)"
      by (cases "retrieveNamespaces env w (s_NameSpaceSelector s)")
    note a = adds_only_retrieveNamespaces [OF r, of L]
    show ?thesis
    proof (cases r)
      case (Inl err)
      with Cons.prems sa r a show ?thesis by simp
    next
      case (Inr ns)
      with Cons.prems sa r have
        "parseSubjects env w1
           (p\<lparr> p_Subjects := p_Subjects p @ map (saSubject (s_Name s)) (ns @ s_Namespaces s) \<rparr>) ss
         = (e, p', w')"
        by simp
      from Cons.IH [OF this] a show ?thesis
        by (auto intro: adds_only_trans)
    qed
  qed
qed

lemma labels_expandRB:
  "x \<in> set (expandRB env rn bn L ownerRef subjects rb ns) \<Longrightarrow> om_Labels (krb_Meta x) = L"
  by (auto simp: expandRB_def mkRB_def emptyMeta_def split: if_splits)

lemma parseRBs_frame:
  "parseRBs env w p rn bn RBs L ownerRef = (e, p', w') \<Longrightarrow>
     adds_only L' w w' \<and> p_ClusterRoleBindings p' = p_ClusterRoleBindings p
     \<and> (\<forall>x \<in> set (p_RoleBindings p'). x \<in> set (p_RoleBindings p) \<or> om_Labels (krb_Meta x) = L)"
proof (induction RBs arbitrary: w p)
  case Nil
  then show ?case by (simp add: adds_only_refl)
next
  case (Cons rb RBs)
  obtain r w1 where r: "retrieveNamespaces env w (rb_NameSpaceSelector rb) = (r, w1)"
    by (cases "retrieveNamespaces env w (rb_NameSpaceSelector rb)")
  note a = adds_only_retrieveNamespaces [OF r, of L']
  show ?case
  proof (cases r)
    case (Inl err)
    with Cons.prems r a show ?thesis by simp
  next
    case (Inr ns)
    with Cons.prems r have
      "parseRBs env w1
         (p\<lparr> p_RoleBindings := p_RoleBindings p @
              expandRB env rn bn L ownerRef (p_Subjects p) rb (ns @ rb_Namespaces rb) \<rparr>)
         rn bn RBs L ownerRef = (e, p', w')"
      by simp
    from Cons.IH [OF this] a show ?thesis
      by (auto intro: adds_only_trans dest: labels_expandRB)
  qed
qed

lemma Parse_frame:
  assumes "Parse env w newParser b L ownerRef rn = (e, p, w')"
  shows "adds_only L' w w'
     \<and> (\<forall>x \<in> set (p_RoleBindings p). om_Labels (krb_Meta x) = L)
     \<and> (\<forall>y \<in> set (p_ClusterRoleBindings p). om_Labels (kcrb_Meta y) = L)"
proof -
  obtain e1 p1 w1 where s: "parseSubjects env w newParser (b_Subjects b) = (e1, p1, w1)"
    by (cases "parseSubjects env w newParser (b_Subjects b)")
  from parseSubjects_frame [OF s, of L'] have
    a1: "adds_only L' w w1" and rb1: "p_RoleBindings p1 = []" and crb1: "p_ClusterRoleBindings p1 = []"
    by (simp_all add: newParser_def)
  show ?thesis
  proof (cases e1)
    case (Some err)
    with assms s have "p = p1" "w' = w1" by (simp_all add: Parse_def)
    with a1 rb1 crb1 show ?thesis by simp
  next
    case None
    with assms s have
      r: "parseRBs env w1 (parseCRBs env p1 rn (b_Name b) (b_ClusterRoleBindings b) L ownerRef)
            rn (b_Name b) (b_RoleBindings b) L ownerRef = (e, p, w')"
      by (simp add: Parse_def)
    from parseRBs_frame [OF r, of L'] a1 rb1 crb1 show ?thesis
      by (auto simp: parseCRBs_def mkCRB_def emptyMeta_def intro: adds_only_trans)
  qed
qed

subsection \<open>Creating objects\<close>

lemma adds_only_checkNamespace:
  assumes c: "checkNamespace env w n ownerRef = (r, w')"
  shows "adds_only L w w'"
proof -
  obtain r1 w1 where g: "Get_namespace env w n = (r1, w1)"
    by (cases "Get_namespace env w n")
  note a1 = adds_only_Get_namespace [OF g, of L]
  show ?thesis
  proof (cases "r1 = Inl NotFound")
    case True
    with c g have "Create_namespace env w1
        \<lparr> kns_Meta = emptyMeta\<lparr> om_Name := n, om_OwnerReferences := ownerRef \<rparr> \<rparr> = (r, w')"
      by (simp add: checkNamespace_def)
    from adds_only_Create_namespace [OF this] have "adds_only L w1 w'"
      by (simp add: emptyMeta_def)
    with a1 show ?thesis by (rule adds_only_trans)
  next
    case False
    with c g have "w' = w1"
      by (auto simp: checkNamespace_def split: sum.splits if_splits)
    with a1 show ?thesis by simp
  qed
qed

lemma adds_only_createSA: "createSA env w n ns L ownerRef = (r, w') \<Longrightarrow> adds_only L w w'"
proof -
  assume c: "createSA env w n ns L ownerRef = (r, w')"
  have l: "om_Labels (ksa_Meta (mkSA n ns L ownerRef)) = L"
    by (simp add: mkSA_def emptyMeta_def)
  obtain r1 w1 where c1: "Create_serviceAccount env w (mkSA n ns L ownerRef) = (r1, w1)"
    by (cases "Create_serviceAccount env w (mkSA n ns L ownerRef)")
  note a1 = adds_only_Create_serviceAccount [OF c1 l]
  show ?thesis
  proof (cases "r1 = Some AlreadyExists")
    case True
    with c c1 have "Update_serviceAccount env w1 (mkSA n ns L ownerRef) = (r, w')"
      by (simp add: createSA_def)
    from adds_only_Update_serviceAccount [OF this l] a1 show ?thesis
      by (rule adds_only_trans [rotated])
  next
    case False
    with c c1 have "w' = w1" by (auto simp: createSA_def split: option.splits if_splits)
    with a1 show ?thesis by simp
  qed
qed

lemma adds_only_createCRB:
  assumes c: "createCRB env w crb = (r, w')" and l: "om_Labels (kcrb_Meta crb) = L"
  shows "adds_only L w w'"
proof -
  obtain r1 w1 where c1: "Create_clusterRoleBinding env w crb = (r1, w1)"
    by (cases "Create_clusterRoleBinding env w crb")
  note a1 = adds_only_Create_clusterRoleBinding [OF c1 l]
  show ?thesis
  proof (cases "r1 = Some AlreadyExists")
    case True
    with c c1 have "Update_clusterRoleBinding env w1 crb = (r, w')"
      by (simp add: createCRB_def)
    from adds_only_Update_clusterRoleBinding [OF this l] a1 show ?thesis
      by (rule adds_only_trans [rotated])
  next
    case False
    with c c1 have "w' = w1" by (auto simp: createCRB_def split: option.splits if_splits)
    with a1 show ?thesis by simp
  qed
qed

lemma adds_only_createCR:
  assumes c: "createCR env w cr = (r, w')" and l: "om_Labels (krb_Meta cr) = L"
  shows "adds_only L w w'"
proof -
  obtain r1 w1 where c1: "Create_roleBinding env w cr = (r1, w1)"
    by (cases "Create_roleBinding env w cr")
  note a1 = adds_only_Create_roleBinding [OF c1 l]
  show ?thesis
  proof (cases "r1 = Some AlreadyExists")
    case True
    with c c1 have "Update_roleBinding env w1 cr = (r, w')"
      by (simp add: createCR_def)
    from adds_only_Update_roleBinding [OF this l] a1 show ?thesis
      by (rule adds_only_trans [rotated])
  next
    case False
    with c c1 have "w' = w1" by (auto simp: createCR_def split: option.splits if_splits)
    with a1 show ?thesis by simp
  qed
qed

subsection \<open>The loops over a parsed binding\<close>

lemma adds_only_applySubjects:
  "applySubjects env w L ownerRef ss = (r, w') \<Longrightarrow> adds_only L w w'"
proof (induction ss arbitrary: w)
  case Nil
  then show ?case by (simp add: adds_only_refl)
next
  case (Cons s ss)
  show ?case
  proof (cases "sub_Kind s = ServiceAccount")
    case False
    with Cons show ?thesis by simp
  next
    case True
    obtain r1 w1 where c: "checkNamespace env w (sub_Namespace s) ownerRef = (r1, w1)"
      by (cases "checkNamespace env w (sub_Namespace s) ownerRef")
    note a1 = adds_only_checkNamespace [OF c, of L]
    show ?thesis
    proof (cases r1)
      case (Some err)
      with Cons.prems True c a1 show ?thesis
        by (auto intro: adds_only_log_Error)
    next
      case None
      obtain r2 w2 where s: "createSA env w1 (sub_Name s) (sub_Namespace s) L ownerRef = (r2, w2)"
        by (cases "createSA env w1 (sub_Name s) (sub_Namespace s) L ownerRef")
      note a2 = adds_only_trans [OF a1 adds_only_createSA [OF s]]
      show ?thesis
      proof (cases r2)
        case (Some err)
        with Cons.prems True c None s a2 show ?thesis
          by (auto intro: adds_only_log_Error)
      next
        case n2: None
        with Cons.prems True c None s have "applySubjects env w2 L ownerRef ss = (r, w')"
          by simp
        from adds_only_trans [OF a2 Cons.IH [OF this]] show ?thesis .
      qed
    qed
  qed
qed

lemma adds_only_applyCRBs:
  "applyCRBs env w rule crbs = (r, rule', w') \<Longrightarrow>
   \<forall>y \<in> set crbs. om_Labels (kcrb_Meta y) = L \<Longrightarrow> adds_only L w w'"
proof (induction crbs arbitrary: w rule)
  case Nil
  then show ?case by (simp add: adds_only_refl)
next
  case (Cons crb crbs)
  from Cons.prems(2) have l: "om_Labels (kcrb_Meta crb) = L"
    and ls: "\<forall>y \<in> set crbs. om_Labels (kcrb_Meta y) = L" by simp_all
  obtain r1 w1 where c: "createCRB env w crb = (r1, w1)"
    by (cases "createCRB env w crb")
  note a1 = adds_only_createCRB [OF c l]
  show ?case
  proof (cases r1)
    case (Some err)
    with Cons.prems(1) c a1 show ?thesis
      by (auto intro: adds_only_log_Error)
  next
    case None
    show ?thesis
    proof (cases "slices_Index (st_ClusterRoleBindings (r_Status rule)) (om_Name (kcrb_Meta crb)) = -1")
      case False
      with Cons.prems(1) c None have "applyCRBs env w1 rule crbs = (r, rule', w')"
        by simp
      from adds_only_trans [OF a1 Cons.IH [OF this ls]] show ?thesis .
    next
      case True
      define rule1 where "rule1 = rule\<lparr> r_Status := (r_Status rule)\<lparr> st_ClusterRoleBindings :=
                           st_ClusterRoleBindings (r_Status rule) @ [om_Name (kcrb_Meta crb)] \<rparr> \<rparr>"
      obtain r2 w2 where u: "StatusUpdate_rule env w1 rule1 = (r2, w2)"
        by (cases "StatusUpdate_rule env w1 rule1")
      note a2 = adds_only_trans [OF a1 adds_only_StatusUpdate_rule [OF u]]
      show ?thesis
      proof (cases r2)
        case (Inl err)
        with Cons.prems(1) c None True u a2 show ?thesis
          by (auto simp: Let_def rule1_def intro: adds_only_log_Error)
      next
        case (Inr rule2)
        with Cons.prems(1) c None True u have "applyCRBs env w2 rule2 crbs = (r, rule', w')"
          by (simp add: Let_def rule1_def)
        from adds_only_trans [OF a2 Cons.IH [OF this ls]] show ?thesis .
      qed
    qed
  qed
qed

lemma adds_only_applyRBs:
  "applyRBs env w rule rbs = (r, rule', w') \<Longrightarrow>
   \<forall>y \<in> set rbs. om_Labels (krb_Meta y) = L \<Longrightarrow> adds_only L w w'"
proof (induction rbs arbitrary: w rule)
  case Nil
  then show ?case by (simp add: adds_only_refl)
next
  case (Cons rb rbs)
  from Cons.prems(2) have l: "om_Labels (krb_Meta rb) = L"
    and ls: "\<forall>y \<in> set rbs. om_Labels (krb_Meta y) = L" by simp_all
  obtain r1 w1 where c: "createCR env w rb = (r1, w1)"
    by (cases "createCR env w rb")
  note a1 = adds_only_createCR [OF c l]
  show ?case
  proof (cases r1)
    case (Some err)
    with Cons.prems(1) c a1 show ?thesis
      by (auto intro: adds_only_log_Error)
  next
    case None
    show ?thesis
    proof (cases "slices_Index (st_RoleBindings (r_Status rule)) (rbKey rb) = -1")
      case False
      with Cons.prems(1) c None have "applyRBs env w1 rule rbs = (r, rule', w')"
        by simp
      from adds_only_trans [OF a1 Cons.IH [OF this ls]] show ?thesis .
    next
      case True
      define rule1 where "rule1 = rule\<lparr> r_Status := (r_Status rule)\<lparr> st_RoleBindings :=
                           st_RoleBindings (r_Status rule) @ [rbKey rb] \<rparr> \<rparr>"
      obtain r2 w2 where u: "StatusUpdate_rule env w1 rule1 = (r2, w2)"
        by (cases "StatusUpdate_rule env w1 rule1")
      note a2 = adds_only_trans [OF a1 adds_only_StatusUpdate_rule [OF u]]
      show ?thesis
      proof (cases r2)
        case (Inl err)
        with Cons.prems(1) c None True u a2 show ?thesis
          by (auto simp: Let_def rule1_def intro: adds_only_log_Error)
      next
        case (Inr rule2)
        with Cons.prems(1) c None True u have "applyRBs env w2 rule2 rbs = (r, rule', w')"
          by (simp add: Let_def rule1_def)
        from adds_only_trans [OF a2 Cons.IH [OF this ls]] show ?thesis .
      qed
    qed
  qed
qed

lemma adds_only_applyParsed:
  assumes a: "applyParsed env w rule L ownerRef p = (r, rule', w')"
    and rb: "\<forall>x \<in> set (p_RoleBindings p). om_Labels (krb_Meta x) = L"
    and crb: "\<forall>y \<in> set (p_ClusterRoleBindings p). om_Labels (kcrb_Meta y) = L"
  shows "adds_only L w w'"
proof -
  obtain r1 w1 where s: "applySubjects env w L ownerRef (p_Subjects p) = (r1, w1)"
    by (cases "applySubjects env w L ownerRef (p_Subjects p)")
  note a1 = adds_only_applySubjects [OF s]
  show ?thesis
  proof (cases r1)
    case (Some ret)
    with a s a1 show ?thesis by (simp add: applyParsed_def)
  next
    case None
    obtain r2 rule2 w2 where c: "applyCRBs env w1 rule (p_ClusterRoleBindings p) = (r2, rule2, w2)"
      by (cases "applyCRBs env w1 rule (p_ClusterRoleBindings p)")
    note a2 = adds_only_trans [OF a1 adds_only_applyCRBs [OF c crb]]
    show ?thesis
    proof (cases r2)
      case (Some ret)
      with a s None c a2 show ?thesis by (simp add: applyParsed_def)
    next
      case n2: None
      with a s None c have "applyRBs env w2 rule2 (p_RoleBindings p) = (r, rule', w')"
        by (simp add: applyParsed_def)
      from adds_only_trans [OF a2 adds_only_applyRBs [OF this rb]] show ?thesis .
    qed
  qed
qed

lemma adds_only_reconcileBindings:
  "reconcileBindings env w rule L ownerRef name bs = (r, rule', w') \<Longrightarrow> adds_only L w w'"
proof (induction bs arbitrary: w rule)
  case Nil
  then show ?case by (simp add: adds_only_refl)
next
  case (Cons b bs)
  obtain perr p w1 where p: "Parse env w newParser b L ownerRef name = (perr, p, w1)"
    by (cases "Parse env w newParser b L ownerRef name")
  from Parse_frame [OF p, of L] have
    a1: "adds_only L w w1" and
    rb: "\<forall>x \<in> set (p_RoleBindings p). om_Labels (krb_Meta x) = L" and
    crb: "\<forall>y \<in> set (p_ClusterRoleBindings p). om_Labels (kcrb_Meta y) = L"
    by simp_all
  define w1' where "w1' = (case perr of None \<Rightarrow> w1 | Some e \<Rightarrow> log_Error ''failed to parse RBACBinding'' w1)"
  have a1': "adds_only L w w1'"
    using a1 by (auto simp: w1'_def intro: adds_only_log_Error split: option.splits)
  obtain r2 rule2 w2 where ap: "applyParsed env w1' rule L ownerRef p = (r2, rule2, w2)"
    by (cases "applyParsed env w1' rule L ownerRef p")
  note a2 = adds_only_trans [OF a1' adds_only_applyParsed [OF ap rb crb]]
  show ?case
  proof (cases r2)
    case (Some ret)
    with Cons.prems p ap a2 show ?thesis by (simp add: w1'_def)
  next
    case None
    with Cons.prems p ap have "reconcileBindings env w2 rule2 L ownerRef name bs = (r, rule', w')"
      by (simp add: w1'_def)
    from adds_only_trans [OF a2 Cons.IH [OF this]] show ?thesis .
  qed
qed

subsection \<open>The deletion path adds nothing\<close>

lemma adds_only_deleteRoleBindingItems:
  "deleteRoleBindingItems env w rule rbs = (r, rule', w') \<Longrightarrow> adds_only L w w'"
proof (induction rbs arbitrary: w rule)
  case Nil
  then show ?case by (simp add: adds_only_refl)
next
  case (Cons rb rbs)
  obtain r1 w1 where d: "Delete_roleBinding env w rb = (r1, w1)"
    by (cases "Delete_roleBinding env w rb")
  note a1 = adds_only_Delete_roleBinding [OF d, of L]
  show ?case
  proof (cases r1)
    case (Some err)
    with Cons.prems d a1 show ?thesis by (auto intro: adds_only_log_Error)
  next
    case None
    define i where "i = slices_Index (st_RoleBindings (r_Status rule)) (om_Name (krb_Meta rb))"
    show ?thesis
    proof (cases "slices_Delete (st_RoleBindings (r_Status rule)) i i")
      case n: None
      with Cons.prems d None a1 show ?thesis by (simp add: Let_def i_def)
    next
      case (Some s)
      define rule1 where "rule1 = rule\<lparr> r_Status := (r_Status rule)\<lparr> st_RoleBindings := s \<rparr> \<rparr>"
      obtain r2 w2 where u: "Update_rule env w1 rule1 = (r2, w2)"
        by (cases "Update_rule env w1 rule1")
      note a2 = adds_only_trans [OF a1 adds_only_Update_rule [OF u]]
      show ?thesis
      proof (cases r2)
        case (Inl err)
        with Cons.prems d None Some u a2 show ?thesis
          by (auto simp: Let_def i_def rule1_def intro: adds_only_log_Error)
      next
        case (Inr rule2)
        with Cons.prems d None Some u have "deleteRoleBindingItems env w2 rule2 rbs = (r, rule', w')"
          by (simp add: Let_def i_def rule1_def)
        from adds_only_trans [OF a2 Cons.IH [OF this]] show ?thesis .
      qed
    qed
  qed
qed

lemma adds_only_deleteClusterRoleBindingItems:
  "deleteClusterRoleBindingItems env w rule crbs = (r, rule', w') \<Longrightarrow> adds_only L w w'"
proof (induction crbs arbitrary: w rule)
  case Nil
  then show ?case by (simp add: adds_only_refl)
next
  case (Cons crb crbs)
  obtain r1 w1 where d: "Delete_clusterRoleBinding env w crb = (r1, w1)"
    by (cases "Delete_clusterRoleBinding env w crb")
  note a1 = adds_only_Delete_clusterRoleBinding [OF d, of L]
  show ?case
  proof (cases r1)
    case (Some err)
    with Cons.prems d a1 show ?thesis by (auto intro: adds_only_log_Error)
  next
    case None
    define i where "i = slices_Index (st_ClusterRoleBindings (r_Status rule)) (om_Name (kcrb_Meta crb))"
    show ?thesis
    proof (cases "slices_Delete (st_ClusterRoleBindings (r_Status rule)) i i")
      case n: None
      with Cons.prems d None a1 show ?thesis by (simp add: Let_def i_def)
    next
      case (Some s)
      define rule1 where "rule1 = rule\<lparr> r_Status := (r_Status rule)\<lparr> st_ClusterRoleBindings := s \<rparr> \<rparr>"
      obtain r2 w2 where u: "Update_rule env w1 rule1 = (r2, w2)"
        by (cases "Update_rule env w1 rule1")
      note a2 = adds_only_trans [OF a1 adds_only_Update_rule [OF u]]
      show ?thesis
      proof (cases r2)
        case (Inl err)
        with Cons.prems d None Some u a2 show ?thesis
          by (auto simp: Let_def i_def rule1_def intro: adds_only_log_Error)
      next
        case (Inr rule2)
        with Cons.prems d None Some u have
          "deleteClusterRoleBindingItems env w2 rule2 crbs = (r, rule', w')"
          by (simp add: Let_def i_def rule1_def)
        from adds_only_trans [OF a2 Cons.IH [OF this]] show ?thesis .
      qed
    qed
  qed
qed

lemma adds_only_deleteBindingsCRBs:
  "deleteBindingsCRBs env w rule ls = (r, rule', w') \<Longrightarrow> adds_only L w w'"
  by (auto simp: deleteBindingsCRBs_def adds_only_refl split: if_splits prod.splits sum.splits
      dest!: adds_only_List_clusterRoleBindings [of _ _ _ _ _ L]
             adds_only_deleteClusterRoleBindingItems [of _ _ _ _ _ _ _ L]
      intro: adds_only_trans adds_only_log_Error)

lemma adds_only_deleteBindings:
  assumes "deleteBindings env w rule ls = (r, rule', w')"
  shows "adds_only L w w'"
proof (cases "st_RoleBindings (r_Status rule) \<noteq> []")
  case False
  with assms show ?thesis
    by (auto simp: deleteBindings_def dest: adds_only_deleteBindingsCRBs)
next
  case True
  obtain r1 w1 where l: "List_roleBindings env w ls = (r1, w1)"
    by (cases "List_roleBindings env w ls")
  note a1 = adds_only_List_roleBindings [OF l, of L]
  show ?thesis
  proof (cases r1)
    case (Inl err)
    with assms True l a1 show ?thesis
      by (auto simp: deleteBindings_def intro: adds_only_log_Error)
  next
    case (Inr items)
    obtain r2 rule2 w2 where d: "deleteRoleBindingItems env w1 rule items = (r2, rule2, w2)"
      by (cases "deleteRoleBindingItems env w1 rule items")
    note a2 = adds_only_trans [OF a1 adds_only_deleteRoleBindingItems [OF d]]
    show ?thesis
    proof (cases "r2 = Returns None")
      case True
      with assms \<open>st_RoleBindings (r_Status rule) \<noteq> []\<close> l Inr d
      have "deleteBindingsCRBs env w2 rule2 ls = (r, rule', w')"
        by (simp add: deleteBindings_def)
      from adds_only_trans [OF a2 adds_only_deleteBindingsCRBs [OF this]] show ?thesis .
    next
      case False
      with assms \<open>st_RoleBindings (r_Status rule) \<noteq> []\<close> l Inr d have "w' = w2"
        by (auto simp: deleteBindings_def split: Outcome.splits option.splits)
      with a2 show ?thesis by simp
    qed
  qed
qed

lemma adds_only_deleteServiceAccountItems:
  "deleteServiceAccountItems env w sas = (r, w') \<Longrightarrow> adds_only L w w'"
proof (induction sas arbitrary: w)
  case Nil
  then show ?case by (simp add: adds_only_refl)
next
  case (Cons sa sas)
  obtain r1 w1 where d: "Delete_serviceAccount env w sa = (r1, w1)"
    by (cases "Delete_serviceAccount env w sa")
  note a1 = adds_only_Delete_serviceAccount [OF d, of L]
  show ?case
  proof (cases "\<exists>e. r1 = Some e \<and> e \<noteq> NotFound")
    case True
    with Cons.prems d a1 show ?thesis by (auto intro: adds_only_log_Error)
  next
    case False
    with Cons.prems d have "deleteServiceAccountItems env w1 sas = (r, w')"
      by (auto split: option.splits if_splits)
    from adds_only_trans [OF a1 Cons.IH [OF this]] show ?thesis .
  qed
qed

lemma adds_only_deleteServiceAccounts:
  "deleteServiceAccounts env w ls = (r, w') \<Longrightarrow> adds_only L w w'"
  by (auto simp: deleteServiceAccounts_def split: prod.splits sum.splits
      dest!: adds_only_List_serviceAccounts [of _ _ _ _ _ L]
             adds_only_deleteServiceAccountItems [of _ _ _ _ _ L]
      intro: adds_only_trans adds_only_log_Error)

lemma adds_only_removeFinalizerAndUpdate:
  "removeFinalizerAndUpdate env w rule = (r, w') \<Longrightarrow> adds_only L w w'"
  by (auto simp: removeFinalizerAndUpdate_def split: prod.splits sum.splits
      dest!: adds_only_Update_rule [of _ _ _ _ _ L] intro: adds_only_log_Error)

lemma adds_only_reconcileDelete:
  assumes "reconcileDelete env w0 rule = (r, w')"
  shows "adds_only L w0 w'"
proof -
  define w where "w = log_Info ''Deleting RBACRule'' w0"
  have a0: "adds_only L w0 w"
    by (simp add: w_def adds_only_log_Info adds_only_refl)
  show ?thesis
  proof (cases "ContainsFinalizer rule RBACRuleFinalizer")
    case False
    with assms have "removeFinalizerAndUpdate env w rule = (r, w')"
      by (simp add: reconcileDelete_def Let_def w_def)
    from adds_only_trans [OF a0 adds_only_removeFinalizerAndUpdate [OF this]] show ?thesis .
  next
    case True
    obtain r1 rule1 w1 where d:
      "deleteBindings env w rule (SelectorFromSet (sweepLabels env rule)) = (r1, rule1, w1)"
      by (cases "deleteBindings env w rule (SelectorFromSet (sweepLabels env rule))")
    note a1 = adds_only_trans [OF a0 adds_only_deleteBindings [OF d]]
    show ?thesis
    proof (cases "r1 = Returns None")
      case False
      with assms True d have "w' = w1 \<or> w' = log_Error ''failed to delete bindings'' w1"
        by (auto simp: reconcileDelete_def Let_def w_def split: Outcome.splits option.splits)
      with a1 show ?thesis by (auto intro: adds_only_log_Error)
    next
      case r1: True
      obtain r2 w2 where s:
        "deleteServiceAccounts env w1 (SelectorFromSet (sweepLabels env rule)) = (r2, w2)"
        by (cases "deleteServiceAccounts env w1 (SelectorFromSet (sweepLabels env rule))")
      note a2 = adds_only_trans [OF a1 adds_only_deleteServiceAccounts [OF s]]
      show ?thesis
      proof (cases r2)
        case (Some err)
        with assms True d r1 s a2 show ?thesis
          by (auto simp: reconcileDelete_def Let_def w_def intro: adds_only_log_Error)
      next
        case None
        with assms True d r1 s have "removeFinalizerAndUpdate env w2 rule1 = (r, w')"
          by (simp add: reconcileDelete_def Let_def w_def)
        from adds_only_trans [OF a2 adds_only_removeFinalizerAndUpdate [OF this]] show ?thesis .
      qed
    qed
  qed
qed

subsection \<open>\<^verbatim>\<open>Reconcile\<close> as a whole\<close>

lemma adds_only_time_Now: "time_Now env w = (t, w') \<Longrightarrow> adds_only L w w'"
  by (auto simp: time_Now_def adds_only_def)

lemma adds_only_reconcileEnd:
  assumes "reconcileEnd env w rule = (r, w')"
  shows "adds_only L w w'"
proof -
  define w1 where "w1 = (if spec_EndTime (r_Spec rule) \<noteq> ZeroTime then snd (time_Now env w) else w)"
  define w2 where "w2 = snd (time_Now env w1)"
  have a1: "adds_only L w w1"
    by (auto simp: w1_def adds_only_refl intro: adds_only_time_Now [OF prod.collapse [symmetric]])
  have a2: "adds_only L w w2"
    unfolding w2_def by (rule adds_only_trans [OF a1 adds_only_time_Now [OF prod.collapse [symmetric]]])
  from assms have "w' = log_Info ''Rule will be scheduled for deletion'' w2 \<or> w' = w2
      \<or> w' = snd (Delete_rule env w2 rule)
      \<or> w' = log_Error ''error deleting resource'' (snd (Delete_rule env w2 rule))"
    by (auto simp: reconcileEnd_def Let_def w1_def w2_def split: prod.splits if_splits option.splits)
  with a2 show ?thesis
    by (auto intro: adds_only_log_Info adds_only_log_Error
        adds_only_trans [OF _ adds_only_Delete_rule [OF prod.collapse [symmetric]]])
qed

lemma adds_only_reconcileActive:
  assumes "reconcileActive env w rule = (r, w')"
  shows "adds_only (ownershipLabels env rule) w w'"
proof -
  obtain r1 rule1 w1 where b:
    "reconcileBindings env w rule (ownershipLabels env rule) [NewControllerRef rule]
       (om_Name (r_Meta rule)) (spec_Bindings (r_Spec rule)) = (r1, rule1, w1)"
    by (cases "reconcileBindings env w rule (ownershipLabels env rule) [NewControllerRef rule]
       (om_Name (r_Meta rule)) (spec_Bindings (r_Spec rule))")
  note a1 = adds_only_reconcileBindings [OF b]
  show ?thesis
  proof (cases r1)
    case (Some ret)
    with assms b a1 show ?thesis by (simp add: reconcileActive_def)
  next
    case None
    with assms b have "reconcileEnd env w1 rule1 = (r, w')"
      by (simp add: reconcileActive_def)
    from adds_only_trans [OF a1 adds_only_reconcileEnd [OF this]] show ?thesis .
  qed
qed

lemma adds_only_reconcileFetched:
  assumes "reconcileFetched env w rule = (r, w')"
  shows "adds_only (ownershipLabels env rule) w w'"
proof (cases "om_DeletionTimestamp (r_Meta rule) \<noteq> None")
  case True
  with assms have "w' = snd (reconcileDelete env w rule)"
    by (auto simp: reconcileFetched_def split: prod.splits Outcome.splits)
  then show ?thesis
    by (simp add: adds_only_reconcileDelete [OF prod.collapse [symmetric]])
next
  case False
  define w1 where "w1 = (if spec_StartTime (r_Spec rule) \<noteq> ZeroTime then snd (time_Now env w) else w)"
  have a1: "adds_only (ownershipLabels env rule) w w1"
    by (auto simp: w1_def adds_only_refl intro: adds_only_time_Now [OF prod.collapse [symmetric]])
  from assms False have
    "w' = log_Info ''Rule shouldn't be active yet , waiting for start time'' (snd (time_Now env w1))
     \<or> w' = snd (reconcileActive env w1 rule)"
    by (auto simp: reconcileFetched_def Let_def w1_def split: prod.splits if_splits)
  with a1 show ?thesis
    by (auto intro: adds_only_log_Info adds_only_trans [OF _ adds_only_time_Now [OF prod.collapse [symmetric]]]
        adds_only_trans [OF _ adds_only_reconcileActive [OF prod.collapse [symmetric]]])
qed

lemma Get_rule_name: "Get_rule env w ns name = (Inr rule, w') \<Longrightarrow> om_Name (r_Meta rule) = name"
  by (auto simp: Get_rule_def api_call_def find_Some_iff split: option.splits)

lemma Update_rule_name:
  "Update_rule env w x = (Inr x', w') \<Longrightarrow> om_Name (r_Meta x') = om_Name (r_Meta x)"
  by (auto simp: Update_rule_def api_call_def Let_def split: option.splits if_splits)

lemma name_AddFinalizer [simp]: "om_Name (r_Meta (AddFinalizer rule f)) = om_Name (r_Meta rule)"
  by (simp add: AddFinalizer_def)

lemma adds_only_Reconcile:
  assumes "Reconcile env w ns name = (out, w')"
  shows "adds_only [(RBACRuleLabel env, name)] w w'"
proof -
  let ?L = "[(RBACRuleLabel env, name)]"
  obtain r1 w1 where g: "Get_rule env w ns name = (r1, w1)"
    by (cases "Get_rule env w ns name")
  note a1 = adds_only_Get_rule [OF g, of ?L]
  show ?thesis
  proof (cases r1)
    case (Inl err)
    with assms g a1 show ?thesis
      by (auto simp: Reconcile_def intro: adds_only_log_Info split: if_splits)
  next
    case (Inr rule)
    with g have n: "om_Name (r_Meta rule) = name" by (simp add: Get_rule_name)
    show ?thesis
    proof (cases "om_DeletionTimestamp (r_Meta rule) = None \<and> \<not> ContainsFinalizer rule RBACRuleFinalizer")
      case False
      with assms g Inr have f: "reconcileFetched env w1 rule = (out, w')"
        by (auto simp: Reconcile_def)
      from adds_only_reconcileFetched [OF f] n have "adds_only ?L w1 w'"
        by (simp add: ownershipLabels_def)
      with a1 show ?thesis by (rule adds_only_trans)
    next
      case True
      obtain r2 w2 where u: "Update_rule env w1 (AddFinalizer rule RBACRuleFinalizer) = (r2, w2)"
        by (cases "Update_rule env w1 (AddFinalizer rule RBACRuleFinalizer)")
      note a2 = adds_only_trans [OF a1 adds_only_Update_rule [OF u]]
      show ?thesis
      proof (cases r2)
        case (Inl err)
        with assms g Inr True u a2 show ?thesis
          by (auto simp: Reconcile_def intro: adds_only_log_Error)
      next
        case r2: (Inr rule1)
        with u n have n1: "om_Name (r_Meta rule1) = name"
          by (auto dest: Update_rule_name)
        from assms g Inr True u r2 have f: "reconcileFetched env w2 rule1 = (out, w')"
          by (simp add: Reconcile_def)
        from adds_only_reconcileFetched [OF f] n1 have "adds_only ?L w2 w'"
          by (simp add: ownershipLabels_def)
        with a2 show ?thesis by (rule adds_only_trans)
      qed
    qed
  qed
qed

text \<open>
  Claim C4, as stated, fails for namespaces: \<^verbatim>\<open>checkNamespace\<close> creates a missing
  namespace with a name and the owner reference only. Here the namespace
  \<^verbatim>\<open>team-b\<close> is created without any label, while the ServiceAccount created in it
  carries the ownership label.
\<close>

theorem on_demand_namespace_has_no_label_counterexample:
  "w_namespaces freshWorld = []
   \<and> map (\<lambda>n. (om_Name (kns_Meta n), om_Labels (kns_Meta n), om_OwnerReferences (kns_Meta n)))
        (w_namespaces (snd (Reconcile sampleEnv freshWorld [] ''r'')))
      = [(''team-b'', [], [NewControllerRef freshRule])]
   \<and> map (\<lambda>x. (om_Namespace (ksa_Meta x), om_Name (ksa_Meta x), om_Labels (ksa_Meta x)))
        (w_serviceAccounts (snd (Reconcile sampleEnv freshWorld [] ''r'')))
      = [(''team-b'', ''sa1'', [(RBACRuleLabel sampleEnv, ''r'')])]"
  by code_simp

text \<open>
  Claim C4, amended. Whatever a call of \<^verbatim>\<open>Reconcile\<close> for the rule \<open>name\<close> returns, every
  ServiceAccount, RoleBinding and ClusterRoleBinding in the cluster afterwards was
  either there before or carries exactly the ownership label, whose value is the
  name of the rule; every namespace was either there before or carries no label.
\<close>

theorem generated_objects_carry_ownership_label:
  assumes "Reconcile env w ns name = (out, w')"
  shows "(\<forall>x \<in> set (w_serviceAccounts w').
            x \<in> set (w_serviceAccounts w) \<or> om_Labels (ksa_Meta x) = [(RBACRuleLabel env, name)])
     \<and> (\<forall>x \<in> set (w_roleBindings w').
            x \<in> set (w_roleBindings w) \<or> om_Labels (krb_Meta x) = [(RBACRuleLabel env, name)])
     \<and> (\<forall>x \<in> set (w_clusterRoleBindings w').
            x \<in> set (w_clusterRoleBindings w) \<or> om_Labels (kcrb_Meta x) = [(RBACRuleLabel env, name)])
     \<and> (\<forall>x \<in> set (w_namespaces w'). x \<in> set (w_namespaces w) \<or> om_Labels (kns_Meta x) = [])"
  using adds_only_Reconcile [OF assms] by (simp add: adds_only_def)

theorem generated_objects_carry_ownership_label_witness:
  "mkSA ''sa1'' ''team-b'' [(RBACRuleLabel sampleEnv, ''r'')] [NewControllerRef freshRule]
     \<in> set (w_serviceAccounts (snd (Reconcile sampleEnv freshWorld [] ''r'')))
   \<and> (mkSA ''sa1'' ''team-b'' [(RBACRuleLabel sampleEnv, ''r'')] [NewControllerRef freshRule]
         \<in> set (w_serviceAccounts freshWorld)
       \<or> om_Labels (ksa_Meta (mkSA ''sa1'' ''team-b'' [(RBACRuleLabel sampleEnv, ''r'')]
            [NewControllerRef freshRule])) = [(RBACRuleLabel sampleEnv, ''r'')])"
proof -
  have m: "mkSA ''sa1'' ''team-b'' [(RBACRuleLabel sampleEnv, ''r'')] [NewControllerRef freshRule]
     \<in> set (w_serviceAccounts (snd (Reconcile sampleEnv freshWorld [] ''r'')))"
    by code_simp
  note t = generated_objects_carry_ownership_label [OF prod.collapse [symmetric],
      of sampleEnv freshWorld "[]" "''r''"]
  from t [THEN conjunct1, rule_format, OF m] m show ?thesis by (intro conjI)
qed





end
